theory Spec2Isabelle
  imports Main
begin

section \<open>Python values used by the handlers\<close>

text \<open>
  A Python \<open>str\<close> is modelled by its UTF-8 bytes, so a character outside ASCII is two to
  four \<open>char\<close>s.  A \<open>datetime\<close> is a count of microseconds (the resolution of Python's
  \<open>datetime\<close>) since the epoch, a \<open>timedelta\<close> a count of microseconds.
\<close>

type_synonym datetime = int
type_synonym timedelta = int

definition seconds :: "int \<Rightarrow> timedelta" where
  "seconds n = n * 1000000"

definition minutes :: "int \<Rightarrow> timedelta" where
  "minutes n = seconds (n * 60)"

definition days :: "int \<Rightarrow> timedelta" where
  "days n = seconds (n * 86400)"

text \<open>\<open>str(n)\<close> for a Python int: decimal digits, with a minus sign when negative.\<close>

definition digit_char :: "nat \<Rightarrow> char" where
  "digit_char n = ''0123456789'' ! n"

fun show_nat :: "nat \<Rightarrow> string" where
  "show_nat n = (if n < 10 then [digit_char n] else show_nat (n div 10) @ [digit_char (n mod 10)])"

declare show_nat.simps [simp del]

definition show_int :: "int \<Rightarrow> string" where
  "show_int i = (if i < 0 then CHR ''-'' # show_nat (nat (- i)) else show_nat (nat i))"

text \<open>
  \<open>int(x / d)\<close> for a float quotient truncates towards zero.  The quotient is taken
  exactly here; for \<open>int(delta.total_seconds() / 60)\<close> the float result agrees with the exact
  one as long as the delta is below some tens of years (the nearest non-integer quotient is
  \<open>1 / 60000000\<close> away from an integer, far above the rounding error of a double).
\<close>

definition int_trunc_div :: "int \<Rightarrow> int \<Rightarrow> int" where
  "int_trunc_div a d = (if 0 \<le> a then a div d else - ((- a) div d))"

section \<open>Portal data model (backend/app/models.py)\<close>

datatype Role = STUDENT | FACULTY | ADMIN

datatype Status = PENDING | ACTIVE | SUSPENDED

datatype FileStatus = FILE_PENDING | FILE_APPROVED | FILE_DENIED

record User =
  user_id :: int
  email :: string
  password_hash :: string
  role :: Role
  user_status :: Status
  failed_attempts :: int
  lockout_until :: "datetime option"

text \<open>The audit row, without its timestamp, role, detail and ip columns.\<close>

record AuditLog =
  actor_id :: "int option"
  actor_email :: "string option"
  action :: string
  resource :: "string option"

text \<open>Profile, course and notification rows, with the columns the handlers below read or write.\<close>

record Faculty =
  faculty_id :: int
  faculty_user_id :: int

record Student =
  student_id :: int
  student_user_id :: int
  student_name :: string
  student_usn :: string

record Course =
  course_code :: string
  course_faculty_id :: "int option"

datatype NotifType = HOD | SENT

record Notification =
  title :: string
  notif_message :: string
  priority :: string
  notif_type :: NotifType
  sender_id :: "int option"

record UploadedFile =
  file_id :: int
  filename :: string
  file_path :: string
  subject_code :: string
  unit :: string
  semester :: string
  uploaded_by_id :: int
  uploaded_by_role :: Role
  file_status :: FileStatus

text \<open>
  The portal's state: its tables, and the files under \<open>uploads/\<close> as (path, bytes) pairs,
  the newest write first.
\<close>

record portal_db =
  users :: "User list"
  faculties :: "Faculty list"
  students :: "Student list"
  courses :: "Course list"
  notifications :: "Notification list"
  uploaded_files :: "UploadedFile list"
  audit_log :: "AuditLog list"
  disk :: "(string \<times> string) list"

datatype error =
    HTTPException nat string
  | NameError string
  | AttributeError string
  | KeyError string
  | ExternalError string

text \<open>
  \<open>session.add(account); session.commit()\<close>: the row with the account's primary key is
  replaced by the object's current fields.
\<close>

definition commit_user :: "portal_db \<Rightarrow> User \<Rightarrow> portal_db" where
  "commit_user db account =
     db\<lparr>users := map (\<lambda>u. if user_id u = user_id account then account else u) (users db)\<rparr>"

text \<open>
  \<open>log_action\<close> (audit.py): one row appended; the actor's id and email are taken from the
  actor object when the explicit arguments are empty.  Any exception inside is swallowed,
  so the call never changes the caller's control flow.
\<close>

definition log_action ::
  "portal_db \<Rightarrow> string \<Rightarrow> User option \<Rightarrow> string option \<Rightarrow> string option \<Rightarrow> portal_db" where
  "log_action db act actor a_email res =
     (let entry = (case actor of
                     None \<Rightarrow> \<lparr>actor_id = None, actor_email = a_email, action = act, resource = res\<rparr>
                   | Some a \<Rightarrow>
                       \<lparr>actor_id = Some (user_id a),
                        actor_email = (case a_email of None \<Rightarrow> Some (email a) | Some e \<Rightarrow>
                                         if e = [] then Some (email a) else Some e),
                        action = act, resource = res\<rparr>)
      in db\<lparr>audit_log := audit_log db @ [entry]\<rparr>)"

section \<open>Tokens (backend/app/auth.py)\<close>

text \<open>
  A token is modelled by the claims it signs: \<open>jwt.encode\<close> is opaque.  The access token
  carries subject, email, role and status; the refresh token the subject only.
\<close>

record token =
  sub :: string
  tok_email :: "string option"
  tok_role :: "Role option"
  tok_status :: "Status option"
  exp :: datetime

text \<open>
  \<open>if expires_delta:\<close> is a truth test: \<open>None\<close> and the zero \<open>timedelta\<close> both take
  the default.  The last argument is the clock reading of the call.
\<close>

definition create_access_token :: "token \<Rightarrow> timedelta option \<Rightarrow> datetime \<Rightarrow> token" where
  "create_access_token data expires_delta now =
     (case expires_delta of
        Some d \<Rightarrow> if d \<noteq> 0 then data\<lparr>exp := now + d\<rparr> else data\<lparr>exp := now + days 30\<rparr>
      | None \<Rightarrow> data\<lparr>exp := now + days 30\<rparr>)"

definition create_refresh_token :: "token \<Rightarrow> timedelta option \<Rightarrow> datetime \<Rightarrow> token" where
  "create_refresh_token data expires_delta now =
     (case expires_delta of
        Some d \<Rightarrow> if d \<noteq> 0 then data\<lparr>exp := now + d\<rparr> else data\<lparr>exp := now + days 7\<rparr>
      | None \<Rightarrow> data\<lparr>exp := now + days 7\<rparr>)"

definition check_role :: "Role list \<Rightarrow> User \<Rightarrow> error + User" where
  "check_role allowed_roles current_user =
     (if role current_user \<notin> set allowed_roles
      then Inl (HTTPException 403 ''Not enough permissions'')
      else Inr current_user)"

section \<open>Login (backend/app/routers/auth.py)\<close>

record LoginRequest =
  req_email :: string
  req_password :: string

record cookie =
  key :: string
  cookie_value :: token
  httponly :: bool
  max_age :: int
  expires :: int
  samesite :: string
  path :: string

record login_user =
  lu_id :: int
  lu_email :: string
  lu_role :: Role
  lu_status :: Status

record login_response =
  cookies :: "cookie list"
  success :: bool
  message :: string
  data_user :: login_user

text \<open>
  Every \<open>utcnow()\<close> of the handler is its own reading of the clock: the lockout test
  (line 41), the retry computation (line 42), the lockout stamp (line 51), and the two
  token constructors.
\<close>

record clock =
  now_test :: datetime
  now_retry :: datetime
  now_lock :: datetime
  now_access :: datetime
  now_refresh :: datetime

text \<open>Line 41: \<open>account.lockout_until and account.lockout_until > datetime.utcnow()\<close>.\<close>

definition lockout_active :: "User \<Rightarrow> datetime \<Rightarrow> bool" where
  "lockout_active account now =
     (case lockout_until account of None \<Rightarrow> False | Some until \<Rightarrow> until > now)"

definition retry_in :: "datetime \<Rightarrow> datetime \<Rightarrow> int" where
  "retry_in until now = int_trunc_div (until - now) (seconds 60) + 1"

definition days_30 :: int where
  "days_30 = 30 * 24 * 60 * 60"

definition set_cookie :: "string \<Rightarrow> token \<Rightarrow> cookie" where
  "set_cookie k v =
     \<lparr>key = k, cookie_value = v, httponly = True, max_age = days_30, expires = days_30,
      samesite = ''lax'', path = ''/''\<rparr>"

text \<open>
  The handler.  \<open>verify_password\<close> (bcrypt) is a parameter.  The result pairs what the
  request gets (an exception or the response) with the database after the request, since
  the failure branch commits before it raises.
\<close>

definition login ::
  "(string \<Rightarrow> string \<Rightarrow> bool) \<Rightarrow> clock \<Rightarrow> portal_db \<Rightarrow> LoginRequest
     \<Rightarrow> (error + login_response) \<times> portal_db" where
  "login verify_password clk db login_data =
     (case find (\<lambda>u. email u = req_email login_data) (users db) of
        None \<Rightarrow>
          (Inl (HTTPException 401 ''Invalid email or password.''),
           log_action db ''LOGIN_FAILED'' None (Some (req_email login_data)) None)
      | Some account \<Rightarrow>
          if lockout_active account (now_test clk) then
            (Inl (HTTPException 403
                   (''Account locked due to multiple failed attempts. Please retry in ''
                    @ show_int (retry_in (the (lockout_until account)) (now_retry clk))
                    @ '' minutes.'')),
             db)
          else if \<not> verify_password (req_password login_data) (password_hash account) then
            (let account1 = account\<lparr>failed_attempts := failed_attempts account + 1\<rparr>;
                 msg = ''Invalid email or password. Attempt ''
                       @ show_int (failed_attempts account1) @ ''/4'';
                 account2 = (if failed_attempts account1 \<ge> 4
                             then account1\<lparr>lockout_until := Some (now_lock clk + minutes 10),
                                           failed_attempts := 0\<rparr>
                             else account1);
                 msg2 = (if failed_attempts account1 \<ge> 4
                         then ''Too many failed attempts. Account locked for 10 minutes.''
                         else msg);
                 db1 = commit_user db account2
             in (Inl (HTTPException 401 msg2),
                 log_action db1 ''LOGIN_FAILED'' (Some account2) None None))
          else
            (let account1 = account\<lparr>failed_attempts := 0, lockout_until := None\<rparr>;
                 db1 = commit_user db account1
             in if user_status account1 = PENDING then
                  (Inl (HTTPException 403 ''Account pending admin approval.''), db1)
                else if user_status account1 = SUSPENDED then
                  (Inl (HTTPException 403 ''Account suspended.''), db1)
                else
                  (let access_token = create_access_token
                         \<lparr>sub = show_int (user_id account1), tok_email = Some (email account1),
                          tok_role = Some (role account1),
                          tok_status = Some (user_status account1), exp = 0\<rparr>
                         None (now_access clk);
                       refresh_token = create_refresh_token
                         \<lparr>sub = show_int (user_id account1), tok_email = None, tok_role = None,
                          tok_status = None, exp = 0\<rparr>
                         None (now_refresh clk)
                   in (Inr \<lparr>cookies = [set_cookie ''access_token'' access_token,
                                       set_cookie ''refresh_token'' refresh_token],
                            success = True, message = ''Login successful'',
                            data_user = \<lparr>lu_id = user_id account1, lu_email = email account1,
                                         lu_role = role account1,
                                         lu_status = user_status account1\<rparr>\<rparr>,
                       log_action db1 ''LOGIN'' (Some account1) None None))))"

section \<open>Portal uploads (backend/app/routers/faculty.py, student.py)\<close>

text \<open>\<open>os.path.join\<close> on POSIX: an absolute component restarts the path.\<close>

definition join2 :: "string \<Rightarrow> string \<Rightarrow> string" where
  "join2 p b =
     (if b \<noteq> [] \<and> hd b = CHR ''/'' then b
      else if p = [] \<or> last p = CHR ''/'' then p @ b
      else p @ ''/'' @ b)"

definition os_path_join :: "string \<Rightarrow> string list \<Rightarrow> string" where
  "os_path_join a ps = fold (\<lambda>b p. join2 p b) ps a"

text \<open>The primary key a commit gives a new row: above every key of the table.\<close>

definition next_file_id :: "UploadedFile list \<Rightarrow> int" where
  "next_file_id rows = fold max (map file_id rows) 0 + 1"

record upload =
  upload_filename :: string
  upload_bytes :: string

record portal_reply =
  reply_success :: bool
  reply_message :: string

definition faculty_upload_file ::
  "portal_db \<Rightarrow> User \<Rightarrow> upload \<Rightarrow> string \<Rightarrow> string \<Rightarrow> string
     \<Rightarrow> (error + portal_reply) \<times> portal_db" where
  "faculty_upload_file db current_user file subject_code' unit' semester' =
     (case check_role [FACULTY, ADMIN] current_user of
        Inl e \<Rightarrow> (Inl e, db)
      | Inr _ \<Rightarrow>
         (case find (\<lambda>f. faculty_user_id f = user_id current_user) (faculties db) of
            None \<Rightarrow> (Inl (HTTPException 404 ''Faculty profile not found.''), db)
          | Some faculty \<Rightarrow>
             (let upload_dir = os_path_join ''uploads'' [semester', subject_code', ''unit_'' @ unit'];
                  file_path' = os_path_join upload_dir [upload_filename file];
                  db1 = db\<lparr>disk := (file_path', upload_bytes file) # disk db\<rparr>;
                  new_up = \<lparr>file_id = next_file_id (uploaded_files db1),
                            filename = upload_filename file, file_path = file_path',
                            subject_code = subject_code', unit = unit', semester = semester',
                            uploaded_by_id = user_id current_user, uploaded_by_role = FACULTY,
                            file_status = FILE_APPROVED\<rparr>;
                  db2 = db1\<lparr>uploaded_files := uploaded_files db1 @ [new_up]\<rparr>;
                  db3 = (case find (\<lambda>c. course_code c = subject_code') (courses db2) of
                           None \<Rightarrow> db2
                         | Some course \<Rightarrow>
                             db2\<lparr>notifications := notifications db2 @
                               [\<lparr>title = ''New Study Material: '' @ upload_filename file,
                                 notif_message = ''New notes uploaded for '' @ subject_code'
                                   @ '' (Unit '' @ unit' @ ''): '' @ upload_filename file
                                   @ ''. Check the repository!'',
                                 priority = ''Low'', notif_type = SENT,
                                 sender_id = Some (faculty_id faculty)\<rparr>]\<rparr>)
              in (Inr \<lparr>reply_success = True,
                       reply_message = ''File '' @ [CHR 0x27] @ upload_filename file @ [CHR 0x27]
                         @ '' uploaded and auto-approved. Students notified.''\<rparr>,
                  log_action db3 ''UPLOAD_FILE_AUTO_APPROVED'' (Some current_user) None
                    (Some (''file:'' @ upload_filename file))))))"

text \<open>
  The student path asks the smart repository's classifier over HTTP.  What comes back is one
  of: the request (or decoding its body) raised; a reply that is not \<open>ok\<close>; an \<open>ok\<close>
  reply with a JSON object, here a list of (key, value) pairs.
\<close>

datatype classify_reply =
    ClassifierRaised
  | ClassifierNotOk
  | ClassifierOk "(string \<times> string) list"

definition dict_get :: "(string \<times> string) list \<Rightarrow> string \<Rightarrow> string \<Rightarrow> string" where
  "dict_get d k dflt = (case map_of d k of Some v \<Rightarrow> v | None \<Rightarrow> dflt)"

text \<open>\<open>os.replace(src, dst)\<close>: the bytes at \<open>src\<close> move to \<open>dst\<close>.\<close>

definition os_replace :: "(string \<times> string) list \<Rightarrow> string \<Rightarrow> string \<Rightarrow> (string \<times> string) list" where
  "os_replace d src dst =
     (case map_of d src of
        None \<Rightarrow> d
      | Some bytes \<Rightarrow> (dst, bytes) # filter (\<lambda>e. fst e \<noteq> src \<and> fst e \<noteq> dst) d)"

definition student_upload_file ::
  "(upload \<Rightarrow> classify_reply) \<Rightarrow> portal_db \<Rightarrow> User \<Rightarrow> upload
     \<Rightarrow> (error + portal_reply) \<times> portal_db" where
  "student_upload_file classify_only db current_user file =
     (case check_role [STUDENT, ADMIN] current_user of
        Inl e \<Rightarrow> (Inl e, db)
      | Inr _ \<Rightarrow>
         (let student = find (\<lambda>s. student_user_id s = user_id current_user) (students db)
          in if student = None \<and> role current_user = STUDENT then
               (Inl (HTTPException 404 ''Student profile not found.''), db)
             else
               (let temp_path = ''uploads/temp_st_'' @ upload_filename file;
                    db1 = db\<lparr>disk := (temp_path, upload_bytes file) # disk db\<rparr>;
                    meta = (case classify_only file of
                              ClassifierOk m \<Rightarrow> m
                            | ClassifierNotOk \<Rightarrow> []
                            | ClassifierRaised \<Rightarrow> []);
                    subject_code' = dict_get meta ''subject_code'' ''UNKNOWN'';
                    semester' = dict_get meta ''semester'' ''6'';
                    unit' = dict_get meta ''unit'' ''1'';
                    upload_dir = os_path_join ''uploads'' [semester', subject_code', ''unit_'' @ unit'];
                    file_path' = os_path_join upload_dir [upload_filename file];
                    db2 = db1\<lparr>disk := os_replace (disk db1) temp_path file_path'\<rparr>;
                    new_up = \<lparr>file_id = next_file_id (uploaded_files db2),
                              filename = upload_filename file, file_path = file_path',
                              subject_code = subject_code', unit = unit', semester = semester',
                              uploaded_by_id = user_id current_user, uploaded_by_role = STUDENT,
                              file_status = FILE_PENDING\<rparr>;
                    db3 = db2\<lparr>uploaded_files := uploaded_files db2 @ [new_up]\<rparr>;
                    reply = \<lparr>reply_success = True,
                             reply_message = ''File '' @ [CHR 0x27] @ upload_filename file @ [CHR 0x27]
                               @ '' uploaded successfully. It is now pending HOD approval.''\<rparr>;
                    audit = (\<lambda>d. log_action d ''UPLOAD_FILE_PENDING'' (Some current_user) None
                                     (Some (''file:'' @ upload_filename file)))
                in case find (\<lambda>c. course_code c = subject_code') (courses db3) of
                     None \<Rightarrow> (Inr reply, audit db3)
                   | Some course \<Rightarrow>
                      (case course_faculty_id course of
                         None \<Rightarrow> (Inr reply, audit db3)
                       | Some fid \<Rightarrow>
                          if fid = 0 then (Inr reply, audit db3)
                          else
                            (case student of
                               None \<Rightarrow> (Inl (AttributeError ''name''), db3)
                             | Some st \<Rightarrow>
                                (Inr reply,
                                 audit (db3\<lparr>notifications := notifications db3 @
                                   [\<lparr>title = ''Pending Approval: '' @ upload_filename file,
                                     notif_message = ''Student '' @ student_name st @ '' (''
                                       @ student_usn st @ '') uploaded '' @ [CHR 0x27]
                                       @ upload_filename file @ [CHR 0x27] @ '' for ''
                                       @ subject_code' @ ''. HOD review required.'',
                                     priority = ''Medium'', notif_type = HOD,
                                     sender_id = Some fid\<rparr>]\<rparr>)))))))"

section \<open>Admin actions (backend/app/routers/admin.py)\<close>

text \<open>
  Attribute access on the \<open>Status\<close> enum class: the three members exist, any other name
  raises \<open>AttributeError\<close>.
\<close>

definition Status_member :: "string \<Rightarrow> error + Status" where
  "Status_member name =
     (if name = ''PENDING'' then Inr PENDING
      else if name = ''ACTIVE'' then Inr ACTIVE
      else if name = ''SUSPENDED'' then Inr SUSPENDED
      else Inl (AttributeError name))"

definition approve_account :: "portal_db \<Rightarrow> User \<Rightarrow> int \<Rightarrow> (error + portal_reply) \<times> portal_db" where
  "approve_account db current_user uid =
     (case check_role [ADMIN] current_user of
        Inl e \<Rightarrow> (Inl e, db)
      | Inr _ \<Rightarrow>
         (case find (\<lambda>u. user_id u = uid) (users db) of
            None \<Rightarrow> (Inl (HTTPException 404 ''User not found''), db)
          | Some user \<Rightarrow>
             (case Status_member ''ACTIVE'' of
                Inl e \<Rightarrow> (Inl e, db)
              | Inr st \<Rightarrow>
                 (let db1 = commit_user db (user\<lparr>user_status := st\<rparr>)
                  in (Inr \<lparr>reply_success = True, reply_message = ''Account approved safely.''\<rparr>,
                      log_action db1 ''ADMIN_APPROVE_ACCOUNT'' (Some current_user) None
                        (Some (''user:'' @ show_int uid)))))))"

text \<open>
  \<open>deny_account\<close> is the same text with \<open>Status.DENIED\<close>.  The attribute is looked up
  before the assignment, so a failing lookup leaves the user object and the database as they
  were.
\<close>

definition deny_account :: "portal_db \<Rightarrow> User \<Rightarrow> int \<Rightarrow> (error + portal_reply) \<times> portal_db" where
  "deny_account db current_user uid =
     (case check_role [ADMIN] current_user of
        Inl e \<Rightarrow> (Inl e, db)
      | Inr _ \<Rightarrow>
         (case find (\<lambda>u. user_id u = uid) (users db) of
            None \<Rightarrow> (Inl (HTTPException 404 ''User not found''), db)
          | Some user \<Rightarrow>
             (case Status_member ''DENIED'' of
                Inl e \<Rightarrow> (Inl e, db)
              | Inr st \<Rightarrow>
                 (let db1 = commit_user db (user\<lparr>user_status := st\<rparr>)
                  in (Inr \<lparr>reply_success = True, reply_message = ''Account denied.''\<rparr>,
                      log_action db1 ''ADMIN_DENY_ACCOUNT'' (Some current_user) None
                        (Some (''user:'' @ show_int uid)))))))"

definition commit_file :: "portal_db \<Rightarrow> UploadedFile \<Rightarrow> portal_db" where
  "commit_file db f =
     db\<lparr>uploaded_files := map (\<lambda>g. if file_id g = file_id f then f else g) (uploaded_files db)\<rparr>"

text \<open>
  \<open>approve_file\<close> first tries to hand the file to the smart repository.  The whole attempt
  sits in \<open>try ... except Exception\<close> and only logs: whatever its outcome, the handler
  goes on.  The smart repository is another service with its own database, so the attempt
  leaves the portal's state alone.
\<close>

datatype ingest_outcome = NoLocalFile | IngestOk | IngestNotOk | IngestRaised

definition approve_file ::
  "(UploadedFile \<Rightarrow> ingest_outcome) \<Rightarrow> portal_db \<Rightarrow> User \<Rightarrow> int
     \<Rightarrow> (error + bool) \<times> portal_db" where
  "approve_file ingest db current_user fid =
     (case check_role [ADMIN] current_user of
        Inl e \<Rightarrow> (Inl e, db)
      | Inr _ \<Rightarrow>
         (case find (\<lambda>f. file_id f = fid) (uploaded_files db) of
            None \<Rightarrow> (Inl (HTTPException 404 ''File not found''), db)
          | Some f \<Rightarrow>
             (let db0 = (case ingest f of
                           NoLocalFile \<Rightarrow> db | IngestOk \<Rightarrow> db
                         | IngestNotOk \<Rightarrow> db | IngestRaised \<Rightarrow> db);
                  db1 = commit_file db0 (f\<lparr>file_status := FILE_APPROVED\<rparr>)
              in (Inr True,
                  log_action db1 ''APPROVE_FILE'' (Some current_user) None
                    (Some (''file:'' @ show_int (file_id f)))))))"

definition deny_file :: "portal_db \<Rightarrow> User \<Rightarrow> int \<Rightarrow> (error + bool) \<times> portal_db" where
  "deny_file db current_user fid =
     (case check_role [ADMIN] current_user of
        Inl e \<Rightarrow> (Inl e, db)
      | Inr _ \<Rightarrow>
         (case find (\<lambda>f. file_id f = fid) (uploaded_files db) of
            None \<Rightarrow> (Inl (HTTPException 404 ''File not found''), db)
          | Some f \<Rightarrow>
             (let db1 = commit_file db (f\<lparr>file_status := FILE_DENIED\<rparr>)
              in (Inr True,
                  log_action db1 ''DENY_FILE'' (Some current_user) None
                    (Some (''file:'' @ show_int (file_id f)))))))"

section \<open>Smart repository: helpers on strings\<close>

text \<open>
  \<open>s.lower()\<close> on the ASCII letters; the other bytes stay.  Python lower-cases letters
  outside ASCII too, but none of them into a letter of the words and extensions that the
  handlers compare a lower-cased string with, so every test on a lower-cased string comes
  out as in Python; only a file type with letters outside ASCII would be kept in another
  spelling.
\<close>

definition lower_char :: "char \<Rightarrow> char" where
  "lower_char c =
     (case map_of (zip ''ABCDEFGHIJKLMNOPQRSTUVWXYZ'' ''abcdefghijklmnopqrstuvwxyz'') c of
        Some l \<Rightarrow> l
      | None \<Rightarrow> c)"

definition lower :: "string \<Rightarrow> string" where
  "lower s = map lower_char s"

text \<open>\<open>needle in s\<close> for strings.\<close>

fun contains :: "string \<Rightarrow> string \<Rightarrow> bool" where
  "contains needle [] = (needle = [])"
| "contains needle (c # cs) = (take (length needle) (c # cs) = needle \<or> contains needle cs)"

text \<open>
  The characters that \<open>str.strip()\<close> removes, in UTF-8: the ASCII ones (tab to carriage
  return, the four separators, the space), then U+0085, U+00A0, U+1680, U+2000 to U+200A,
  U+2028, U+2029, U+202F, U+205F and U+3000.
\<close>

definition WHITESPACE :: "string list" where
  "WHITESPACE =
     [[CHR 0x09], [CHR 0x0A], [CHR 0x0B], [CHR 0x0C], [CHR 0x0D],
      [CHR 0x1C], [CHR 0x1D], [CHR 0x1E], [CHR 0x1F], [CHR 0x20],
      [CHR 0xC2, CHR 0x85], [CHR 0xC2, CHR 0xA0], [CHR 0xE1, CHR 0x9A, CHR 0x80],
      [CHR 0xE2, CHR 0x80, CHR 0x80], [CHR 0xE2, CHR 0x80, CHR 0x81],
      [CHR 0xE2, CHR 0x80, CHR 0x82], [CHR 0xE2, CHR 0x80, CHR 0x83],
      [CHR 0xE2, CHR 0x80, CHR 0x84], [CHR 0xE2, CHR 0x80, CHR 0x85],
      [CHR 0xE2, CHR 0x80, CHR 0x86], [CHR 0xE2, CHR 0x80, CHR 0x87],
      [CHR 0xE2, CHR 0x80, CHR 0x88], [CHR 0xE2, CHR 0x80, CHR 0x89],
      [CHR 0xE2, CHR 0x80, CHR 0x8A], [CHR 0xE2, CHR 0x80, CHR 0xA8],
      [CHR 0xE2, CHR 0x80, CHR 0xA9], [CHR 0xE2, CHR 0x80, CHR 0xAF],
      [CHR 0xE2, CHR 0x81, CHR 0x9F], [CHR 0xE3, CHR 0x80, CHR 0x80]]"

text \<open>One whitespace character taken off the front, when the string starts with one.\<close>

definition strip_space :: "string \<Rightarrow> string option" where
  "strip_space s =
     (case find (\<lambda>w. take (length w) s = w) WHITESPACE of
        None \<Rightarrow> None
      | Some w \<Rightarrow> Some (drop (length w) s))"

text \<open>\<open>not s.strip()\<close>: the string is made of whitespace characters only.\<close>

function is_blank :: "string \<Rightarrow> bool" where
  "is_blank s =
     (if s = [] then True
      else (case strip_space s of None \<Rightarrow> False | Some rest \<Rightarrow> is_blank rest))"
  by pat_completeness auto
termination
proof (relation "measure length")
  show "wf (measure length)"
    by simp
next
  fix s rest :: string
  assume "s \<noteq> []" and stripped: "strip_space s = Some rest"
  from stripped obtain w
    where w: "w \<in> set WHITESPACE" "take (length w) s = w" "rest = drop (length w) s"
    by (auto simp: strip_space_def find_Some_iff in_set_conv_nth split: option.splits)
  from w(1) have "w \<noteq> []"
    by (auto simp: WHITESPACE_def)
  with \<open>s \<noteq> []\<close> w(3) have "length rest < length s"
    by simp
  then show "(rest, s) \<in> measure length"
    by simp
qed

declare is_blank.simps [simp del]

text \<open>\<open>s[:n]\<close> for \<open>n \<ge> 0\<close>: the first \<open>n\<close> characters, each with its continuation bytes.\<close>

definition is_continuation :: "char \<Rightarrow> bool" where
  "is_continuation c = (128 \<le> (of_char c :: nat) \<and> (of_char c :: nat) < 192)"

fun take_chars :: "nat \<Rightarrow> string \<Rightarrow> string" where
  "take_chars n [] = []"
| "take_chars n (c # cs) =
     (if is_continuation c then c # take_chars n cs
      else (case n of 0 \<Rightarrow> [] | Suc m \<Rightarrow> c # take_chars m cs))"

text \<open>\<open>s.split(".")[-1]\<close>: what follows the last dot, the whole string when there is none.\<close>

definition last_segment :: "string \<Rightarrow> string" where
  "last_segment s = rev (takeWhile (\<lambda>c. c \<noteq> CHR ''.'') (rev s))"

text \<open>
  The extension of \<open>os.path.splitext\<close> (POSIX): from the last dot of the last path
  component, provided some character other than a dot comes before it in that component.
\<close>

definition splitext_ext :: "string \<Rightarrow> string" where
  "splitext_ext p =
     (let base = rev (takeWhile (\<lambda>c. c \<noteq> CHR ''/'') (rev p))
      in if CHR ''.'' \<notin> set base then []
         else
           (let stem = rev (drop 1 (dropWhile (\<lambda>c. c \<noteq> CHR ''.'') (rev base)))
            in if list_ex (\<lambda>c. c \<noteq> CHR ''.'') stem then CHR ''.'' # last_segment base else []))"

text \<open>\<open>"\n".join(xs)\<close>\<close>

fun join_lines :: "string list \<Rightarrow> string" where
  "join_lines [] = []"
| "join_lines [x] = x"
| "join_lines (x # y # ys) = x @ [CHR 0x0A] @ join_lines (y # ys)"

text \<open>\<open>xs[:n]\<close> for a Python int \<open>n\<close>.\<close>

definition py_slice_to :: "'a list \<Rightarrow> int \<Rightarrow> 'a list" where
  "py_slice_to xs n = (if 0 \<le> n then take (nat n) xs else take (length xs - nat (- n)) xs)"

text \<open>\<open>d[k]\<close> on a dict.\<close>

definition dict_item :: "(string \<times> string) list \<Rightarrow> string \<Rightarrow> error + string" where
  "dict_item d k = (case map_of d k of None \<Rightarrow> Inl (KeyError k) | Some v \<Rightarrow> Inr v)"

section \<open>Smart repository: moderation and file types\<close>

text \<open>services/moderation_service.py; the score 0.85 is kept in hundredths.\<close>

definition ai_review :: "string \<Rightarrow> nat \<times> string" where
  "ai_review text' =
     (85, if contains ''badword'' (lower text') then ''inappropriate'' else [])"

definition determine_initial_status :: "string \<Rightarrow> string \<times> string" where
  "determine_initial_status role' =
     (if role' = ''faculty'' then (''approved'', ''public'')
      else if role' = ''student'' then (''ai_reviewed'', ''private'')
      else (''pending'', ''private''))"

definition SUPPORTED_EXTENSIONS :: "string list" where
  "SUPPORTED_EXTENSIONS =
     [''.pdf'', ''.docx'', ''.pptx'', ''.png'', ''.jpg'', ''.jpeg'', ''.txt'', ''.csv'']"

definition is_supported :: "string \<Rightarrow> bool" where
  "is_supported fname = (lower (splitext_ext fname) \<in> set SUPPORTED_EXTENSIONS)"

section \<open>Smart repository: state and outside services\<close>

record repo_file =
  rf_id :: int
  rf_filename :: string
  rf_file_type :: string
  rf_semester :: string
  rf_subject_code :: string
  rf_unit :: string
  rf_file_data :: string
  rf_uploader_role :: string
  rf_owner_id :: string
  rf_status :: string
  rf_visibility :: string
  rf_ai_score :: "nat option"
  rf_ai_flags :: "string option"

record 'v DocChunk =
  dc_file_id :: int
  dc_subject_code :: string
  dc_content :: string
  dc_embedding :: 'v
  dc_chunk_index :: nat
  dc_file_type :: string
  dc_section_label :: "string option"

record 'v repo_state =
  local_files :: "(string \<times> string) list"
  repository_files :: "repo_file list"
  doc_chunks :: "'v DocChunk list"

text \<open>
  What the repository calls outside itself, each a parameter; a call that may raise returns
  a sum.  \<open>save_error p b\<close> is what opening the path \<open>p\<close> for writing and copying the bytes
  \<open>b\<close> into it raises, if anything: the upload handlers write under \<open>uploads/\<close> without
  creating the directory.  The two text extractors get the path and the bytes stored there (they wrap PDF,
  DOCX, PPTX and OCR libraries).  \<open>splitter c o\<close> is
  \<open>RecursiveCharacterTextSplitter(chunk_size=c, chunk_overlap=o).split_text\<close>,
  \<open>distance\<close> the database's vector operator \<open><->\<close>.
\<close>

record ('v, 'd) services =
  save_error :: "string \<Rightarrow> string \<Rightarrow> error option"
  extract_text_universal :: "string \<Rightarrow> string \<Rightarrow> error + string"
  extract_text_with_structure :: "string \<Rightarrow> string \<Rightarrow> error + (string \<times> string) list"
  classify_text :: "string \<Rightarrow> error + (string \<times> string) list"
  embed :: "string \<Rightarrow> error + 'v"
  splitter :: "nat \<Rightarrow> nat \<Rightarrow> string \<Rightarrow> string list"
  distance :: "'v \<Rightarrow> 'v \<Rightarrow> 'd"
  generate_answer :: "string \<Rightarrow> string \<Rightarrow> error + string"

text \<open>
  A module's global names.  Calling a name that the module neither imports nor defines
  raises \<open>NameError\<close> when the call is reached.
\<close>

definition resolve_name :: "string list \<Rightarrow> string \<Rightarrow> error + unit" where
  "resolve_name names n = (if n \<in> set names then Inr () else Inl (NameError n))"

text \<open>routes/upload.py, lines 1 to 12 and its two handlers.\<close>

definition upload_module_names :: "string list" where
  "upload_module_names =
     [''APIRouter'', ''UploadFile'', ''File'', ''Form'', ''List'', ''shutil'', ''os'',
      ''get_connection'',
      ''extract_text_universal'', ''extract_text_with_structure'', ''is_supported'',
      ''classify_text'',
      ''process_document_chunks'', ''process_structured_chunks'',
      ''process_multiple_document_chunks'',
      ''ai_review'', ''determine_initial_status'',
      ''router'', ''upload_file'', ''upload_multiple_files'']"

text \<open>routes/search.py.\<close>

definition search_module_names :: "string list" where
  "search_module_names =
     [''APIRouter'', ''BaseModel'', ''SentenceTransformer'', ''get_connection'',
      ''embedding_model'', ''embed'', ''SemanticSearchRequest'', ''router'',
      ''semantic_topic_search'']"

section \<open>Smart repository: indexing (services/document_rag_service.py)\<close>

definition SPLITTER_MAP :: "(string \<times> nat \<times> nat) list" where
  "SPLITTER_MAP =
     [(''pdf'', 500, 100), (''docx'', 500, 100), (''pptx'', 800, 50), (''txt'', 1000, 150),
      (''csv'', 1000, 150), (''png'', 500, 100), (''jpg'', 500, 100), (''jpeg'', 500, 100)]"

definition get_splitter :: "string \<Rightarrow> nat \<times> nat" where
  "get_splitter file_type = (case map_of SPLITTER_MAP file_type of Some p \<Rightarrow> p | None \<Rightarrow> (500, 100))"

definition split_text :: "('v, 'd) services \<Rightarrow> string \<Rightarrow> string \<Rightarrow> string list" where
  "split_text svc text' file_type = splitter svc (fst (get_splitter file_type)) (snd (get_splitter file_type)) text'"

text \<open>The chunks are embedded in order; the first failure ends the loop.\<close>

fun embed_all :: "(string \<Rightarrow> error + 'v) \<Rightarrow> string list \<Rightarrow> error + 'v list" where
  "embed_all em [] = Inr []"
| "embed_all em (c # cs) =
     (case em c of
        Inl e \<Rightarrow> Inl e
      | Inr v \<Rightarrow> (case embed_all em cs of Inl e \<Rightarrow> Inl e | Inr vs \<Rightarrow> Inr (v # vs)))"

definition chunk_rows ::
  "int \<Rightarrow> string \<Rightarrow> string \<Rightarrow> string option \<Rightarrow> nat \<Rightarrow> string list \<Rightarrow> 'v list \<Rightarrow> 'v DocChunk list" where
  "chunk_rows fid subject file_type label start chunks vectors =
     map (\<lambda>(i, chunk, vector).
            \<lparr>dc_file_id = fid, dc_subject_code = subject, dc_content = chunk,
             dc_embedding = vector, dc_chunk_index = i, dc_file_type = file_type,
             dc_section_label = label\<rparr>)
         (zip [start ..< start + length chunks] (zip chunks vectors))"

text \<open>
  The rows are inserted on one connection and committed once, after the loop: an exception
  inside the loop leaves the table as it was.
\<close>

definition process_document_chunks ::
  "('v, 'd) services \<Rightarrow> 'v repo_state \<Rightarrow> int \<Rightarrow> string \<Rightarrow> string \<Rightarrow> string
     \<Rightarrow> (error + unit) \<times> 'v repo_state" where
  "process_document_chunks svc st fid subject text' file_type =
     (let chunks = split_text svc text' file_type
      in case embed_all (embed svc) chunks of
           Inl e \<Rightarrow> (Inl e, st)
         | Inr vectors \<Rightarrow>
             (Inr (),
              st\<lparr>doc_chunks := doc_chunks st
                    @ chunk_rows fid subject file_type None 0 chunks vectors\<rparr>))"

fun structured_rows ::
  "('v, 'd) services \<Rightarrow> int \<Rightarrow> string \<Rightarrow> string \<Rightarrow> nat \<Rightarrow> (string \<times> string) list
     \<Rightarrow> error + 'v DocChunk list" where
  "structured_rows svc fid subject file_type chunk_index [] = Inr []"
| "structured_rows svc fid subject file_type chunk_index ((section_label, content) # secs) =
     (if is_blank content then structured_rows svc fid subject file_type chunk_index secs
      else
        (let chunks = split_text svc content file_type
         in case embed_all (embed svc) chunks of
              Inl e \<Rightarrow> Inl e
            | Inr vectors \<Rightarrow>
               (case structured_rows svc fid subject file_type (chunk_index + length chunks) secs of
                  Inl e \<Rightarrow> Inl e
                | Inr rows \<Rightarrow>
                    Inr (chunk_rows fid subject file_type (Some section_label) chunk_index
                           chunks vectors @ rows))))"

definition process_structured_chunks ::
  "('v, 'd) services \<Rightarrow> 'v repo_state \<Rightarrow> int \<Rightarrow> string \<Rightarrow> (string \<times> string) list \<Rightarrow> string
     \<Rightarrow> (error + unit) \<times> 'v repo_state" where
  "process_structured_chunks svc st fid subject sections file_type =
     (case structured_rows svc fid subject file_type 0 sections of
        Inl e \<Rightarrow> (Inl e, st)
      | Inr rows \<Rightarrow> (Inr (), st\<lparr>doc_chunks := doc_chunks st @ rows\<rparr>))"

section \<open>Smart repository: upload (routes/upload.py)\<close>

definition next_repo_id :: "repo_file list \<Rightarrow> int" where
  "next_repo_id rows = fold max (map rf_id rows) 0 + 1"

text \<open>
  Step 6 of both handlers, the same text in each: open the connection by the name
  \<open>get_connection_repo\<close>, insert the row and commit.  The first argument is the module's
  name table.
\<close>

definition insert_repository_file ::
  "string list \<Rightarrow> 'v repo_state \<Rightarrow> upload \<Rightarrow> string \<Rightarrow> (string \<times> string) list \<Rightarrow> string \<Rightarrow> string
     \<Rightarrow> string \<Rightarrow> string \<Rightarrow> (nat \<times> string) option \<Rightarrow> (error + int) \<times> 'v repo_state" where
  "insert_repository_file names st file file_type metadata role' owner_id status visibility review =
     (case resolve_name names ''get_connection_repo'' of
        Inl e \<Rightarrow> (Inl e, st)
      | Inr _ \<Rightarrow>
         (case dict_item metadata ''semester'' of
            Inl e \<Rightarrow> (Inl e, st)
          | Inr sem \<Rightarrow>
             (case dict_item metadata ''subject_code'' of
                Inl e \<Rightarrow> (Inl e, st)
              | Inr subj \<Rightarrow>
                 (case dict_item metadata ''unit'' of
                    Inl e \<Rightarrow> (Inl e, st)
                  | Inr un \<Rightarrow>
                     (let new_id = next_repo_id (repository_files st);
                          row = \<lparr>rf_id = new_id, rf_filename = upload_filename file,
                                 rf_file_type = file_type, rf_semester = sem,
                                 rf_subject_code = subj, rf_unit = un,
                                 rf_file_data = upload_bytes file, rf_uploader_role = role',
                                 rf_owner_id = owner_id, rf_status = status,
                                 rf_visibility = visibility,
                                 rf_ai_score = map_option fst review,
                                 rf_ai_flags = map_option snd review\<rparr>
                      in (Inr new_id,
                          st\<lparr>repository_files := repository_files st @ [row]\<rparr>))))))"

text \<open>Step 7 of both handlers: structured sections when there are any, the flat text otherwise.\<close>

definition index_document ::
  "('v, 'd) services \<Rightarrow> 'v repo_state \<Rightarrow> string \<Rightarrow> upload \<Rightarrow> int \<Rightarrow> string \<Rightarrow> string \<Rightarrow> string
     \<Rightarrow> (error + unit) \<times> 'v repo_state" where
  "index_document svc st file_path' file fid subject text' file_type =
     (case extract_text_with_structure svc file_path' (upload_bytes file) of
        Inl e \<Rightarrow> (Inl e, st)
      | Inr sections \<Rightarrow>
          if sections \<noteq> [] then process_structured_chunks svc st fid subject sections file_type
          else process_document_chunks svc st fid subject text' file_type)"

record upload_reply =
  ur_message :: string
  ur_role :: string
  ur_status :: string
  ur_visibility :: string
  ur_file_id :: int
  ur_metadata :: "(string \<times> string) list"

text \<open>
  The single-file handler over a given name table.  Steps 2 and 3 (text extraction and
  classification) are plain calls: what they raise leaves the handler.
\<close>

definition upload_file_in ::
  "string list \<Rightarrow> ('v, 'd) services \<Rightarrow> 'v repo_state \<Rightarrow> upload \<Rightarrow> string \<Rightarrow> string
     \<Rightarrow> (error + upload_reply) \<times> 'v repo_state" where
  "upload_file_in names svc st file role' owner_id =
     (let file_path' = ''uploads/'' @ upload_filename file
      in case save_error svc file_path' (upload_bytes file) of
        Some e \<Rightarrow> (Inl e, st)
      | None \<Rightarrow>
     (let st1 = st\<lparr>local_files := (file_path', upload_bytes file) # local_files st\<rparr>;
          file_type = lower (last_segment (upload_filename file))
      in case extract_text_universal svc file_path' (upload_bytes file) of
           Inl e \<Rightarrow> (Inl e, st1)
         | Inr text' \<Rightarrow>
            (case classify_text svc text' of
               Inl e \<Rightarrow> (Inl e, st1)
             | Inr metadata \<Rightarrow>
                (let status = fst (determine_initial_status role');
                     visibility = snd (determine_initial_status role');
                     review = (if role' = ''student'' then Some (ai_review text') else None)
                 in case insert_repository_file names st1 file file_type metadata role' owner_id
                           status visibility review of
                      (Inl e, st2) \<Rightarrow> (Inl e, st2)
                    | (Inr fid, st2) \<Rightarrow>
                       (case index_document svc st2 file_path' file fid
                               (dict_get metadata ''subject_code'' []) text' file_type of
                          (Inl e, st3) \<Rightarrow> (Inl e, st3)
                        | (Inr _, st3) \<Rightarrow>
                            (Inr \<lparr>ur_message = ''Upload successful'', ur_role = role',
                                  ur_status = status,
                                  ur_visibility = visibility, ur_file_id = fid,
                                  ur_metadata = metadata\<rparr>, st3))))))"

definition upload_file ::
  "('v, 'd) services \<Rightarrow> 'v repo_state \<Rightarrow> upload \<Rightarrow> string \<Rightarrow> string
     \<Rightarrow> (error + upload_reply) \<times> 'v repo_state" where
  "upload_file = upload_file_in upload_module_names"

record batch_entry =
  be_filename :: string
  be_file_id :: int
  be_file_type :: string
  be_metadata :: "(string \<times> string) list"
  be_status :: string
  be_visibility :: string

text \<open>The batch reply, without its message line (the sizes of the two lists in a sentence).\<close>

record batch_reply =
  br_role :: string
  br_processed :: "batch_entry list"
  br_skipped :: "(string \<times> string) list"

datatype batch_item = Skipped string string | Processed batch_entry

text \<open>
  The body of the batch loop for one file.  Here the classifier sits in
  \<open>try ... except Exception\<close> with placeholder metadata.
\<close>

definition batch_file ::
  "string list \<Rightarrow> ('v, 'd) services \<Rightarrow> string \<Rightarrow> string \<Rightarrow> 'v repo_state \<Rightarrow> upload
     \<Rightarrow> (error + batch_item) \<times> 'v repo_state" where
  "batch_file names svc role' owner_id st file =
     (if \<not> is_supported (upload_filename file) then
        (Inr (Skipped (upload_filename file) ''Unsupported file type''), st)
      else
        (let file_path' = ''uploads/'' @ upload_filename file
         in case save_error svc file_path' (upload_bytes file) of
           Some e \<Rightarrow> (Inl e, st)
         | None \<Rightarrow>
        (let st1 = st\<lparr>local_files := (file_path', upload_bytes file) # local_files st\<rparr>;
             file_type = lower (last_segment (upload_filename file))
         in case extract_text_universal svc file_path' (upload_bytes file) of
              Inl e \<Rightarrow> (Inl e, st1)
            | Inr text' \<Rightarrow>
               if is_blank text' then
                 (Inr (Skipped (upload_filename file) ''No text could be extracted''), st1)
               else
                 (let metadata = (case classify_text svc text' of
                                    Inl _ \<Rightarrow> [(''semester'', ''unknown''),
                                               (''subject_code'', ''unknown''), (''unit'', ''0'')]
                                  | Inr m \<Rightarrow> m);
                      status = fst (determine_initial_status role');
                      visibility = snd (determine_initial_status role');
                      review = (if role' = ''student'' then Some (ai_review text') else None)
                  in case insert_repository_file names st1 file file_type metadata role' owner_id
                            status visibility review of
                       (Inl e, st2) \<Rightarrow> (Inl e, st2)
                     | (Inr fid, st2) \<Rightarrow>
                        (case index_document svc st2 file_path' file fid
                                (dict_get metadata ''subject_code'' []) text' file_type of
                           (Inl e, st3) \<Rightarrow> (Inl e, st3)
                         | (Inr _, st3) \<Rightarrow>
                             (Inr (Processed
                                    \<lparr>be_filename = upload_filename file, be_file_id = fid,
                                     be_file_type = file_type, be_metadata = metadata,
                                     be_status = status, be_visibility = visibility\<rparr>), st3))))))"

fun batch_loop ::
  "('s \<Rightarrow> upload \<Rightarrow> (error + batch_item) \<times> 's) \<Rightarrow> upload list \<Rightarrow> batch_entry list
     \<Rightarrow> (string \<times> string) list \<Rightarrow> 's \<Rightarrow> (error + batch_entry list \<times> (string \<times> string) list) \<times> 's" where
  "batch_loop body [] results skipped st = (Inr (results, skipped), st)"
| "batch_loop body (file # files) results skipped st =
     (case body st file of
        (Inl e, st') \<Rightarrow> (Inl e, st')
      | (Inr (Skipped fname reason), st') \<Rightarrow>
          batch_loop body files results (skipped @ [(fname, reason)]) st'
      | (Inr (Processed entry), st') \<Rightarrow>
          batch_loop body files (results @ [entry]) skipped st')"

definition upload_multiple_files_in ::
  "string list \<Rightarrow> ('v, 'd) services \<Rightarrow> 'v repo_state \<Rightarrow> upload list \<Rightarrow> string \<Rightarrow> string
     \<Rightarrow> (error + batch_reply) \<times> 'v repo_state" where
  "upload_multiple_files_in names svc st files role' owner_id =
     (case batch_loop (batch_file names svc role' owner_id) files [] [] st of
        (Inl e, st') \<Rightarrow> (Inl e, st')
      | (Inr (results, skipped), st') \<Rightarrow>
          (Inr \<lparr>br_role = role', br_processed = results, br_skipped = skipped\<rparr>, st'))"

definition upload_multiple_files ::
  "('v, 'd) services \<Rightarrow> 'v repo_state \<Rightarrow> upload list \<Rightarrow> string \<Rightarrow> string
     \<Rightarrow> (error + batch_reply) \<times> 'v repo_state" where
  "upload_multiple_files = upload_multiple_files_in upload_module_names"

section \<open>Smart repository: search and chat (routes/search.py, services/document_rag_service.py)\<close>

text \<open>
  \<open>ORDER BY d ASC LIMIT n\<close> over the selected rows.  SQL leaves the order of rows at equal
  distance open; the model keeps them in table order.
\<close>

definition order_by_limit :: "('a \<Rightarrow> 'd::linorder) \<Rightarrow> nat \<Rightarrow> 'a list \<Rightarrow> 'a list" where
  "order_by_limit d n rows = take n (sort_key d rows)"

record 'd search_doc =
  sd_file_id :: int
  sd_subject_code :: string
  sd_file_type :: string
  sd_section :: "string option"
  sd_snippet :: string
  sd_best_distance :: 'd

text \<open>One round of the grouping loop; \<open>doc_map\<close> is a dict keyed by file id, in insertion order.\<close>

definition group_row ::
  "('v DocChunk \<Rightarrow> 'd::linorder) \<Rightarrow> 'v DocChunk \<Rightarrow> 'd search_doc list \<Rightarrow> 'd search_doc list" where
  "group_row d r doc_map =
     (if dc_file_id r \<notin> set (map sd_file_id doc_map) then
        doc_map @ [\<lparr>sd_file_id = dc_file_id r, sd_subject_code = dc_subject_code r,
                    sd_file_type = dc_file_type r, sd_section = dc_section_label r,
                    sd_snippet = take_chars 200 (dc_content r), sd_best_distance = d r\<rparr>]
      else
        map (\<lambda>e. if sd_file_id e = dc_file_id r \<and> d r < sd_best_distance e
                  then e\<lparr>sd_best_distance := d r, sd_snippet := take_chars 200 (dc_content r),
                         sd_section := dc_section_label r\<rparr>
                  else e) doc_map)"

definition semantic_topic_search_in ::
  "string list \<Rightarrow> ('v, 'd::linorder) services \<Rightarrow> 'v repo_state \<Rightarrow> string \<Rightarrow> int
     \<Rightarrow> error + 'd search_doc list" where
  "semantic_topic_search_in names svc st query limit =
     (case embed svc query of
        Inl e \<Rightarrow> Inl e
      | Inr query_vector \<Rightarrow>
         (case resolve_name names ''get_connection_repo'' of
            Inl e \<Rightarrow> Inl e
          | Inr _ \<Rightarrow>
             (let d = (\<lambda>c. distance svc (dc_embedding c) query_vector);
                  rows = order_by_limit d 25 (doc_chunks st);
                  doc_map = fold (group_row d) rows [];
                  results = sort_key sd_best_distance doc_map
              in Inr (py_slice_to results limit))))"

definition semantic_topic_search ::
  "('v, 'd::linorder) services \<Rightarrow> 'v repo_state \<Rightarrow> string \<Rightarrow> int \<Rightarrow> error + 'd search_doc list" where
  "semantic_topic_search = semantic_topic_search_in search_module_names"

text \<open>The two scoped queries of the chat engine: the rows they select, in result order.\<close>

definition select_single_document ::
  "('v, 'd::linorder) services \<Rightarrow> 'v repo_state \<Rightarrow> int \<Rightarrow> 'v \<Rightarrow> 'v DocChunk list" where
  "select_single_document svc st fid q_embed =
     order_by_limit (\<lambda>c. distance svc (dc_embedding c) q_embed) 3
       (filter (\<lambda>c. dc_file_id c = fid) (doc_chunks st))"

definition select_subject ::
  "('v, 'd::linorder) services \<Rightarrow> 'v repo_state \<Rightarrow> string \<Rightarrow> 'v \<Rightarrow> 'v DocChunk list" where
  "select_subject svc st subject q_embed =
     order_by_limit (\<lambda>c. distance svc (dc_embedding c) q_embed) 5
       (filter (\<lambda>c. dc_subject_code c = subject) (doc_chunks st))"

definition chat_with_single_document ::
  "('v, 'd::linorder) services \<Rightarrow> 'v repo_state \<Rightarrow> int \<Rightarrow> string \<Rightarrow> error + string" where
  "chat_with_single_document svc st fid question =
     (case embed svc question of
        Inl e \<Rightarrow> Inl e
      | Inr q_embed \<Rightarrow>
         (let rows = select_single_document svc st fid q_embed;
              context = join_lines (map dc_content rows)
          in generate_answer svc context question))"

definition chat_with_subject ::
  "('v, 'd::linorder) services \<Rightarrow> 'v repo_state \<Rightarrow> string \<Rightarrow> string \<Rightarrow> error + string" where
  "chat_with_subject svc st subject question =
     (case embed svc question of
        Inl e \<Rightarrow> Inl e
      | Inr q_embed \<Rightarrow>
         (let rows = select_subject svc st subject q_embed;
              context = join_lines (map dc_content rows)
          in generate_answer svc context question))"

section \<open>The specification's wording, for comparison\<close>

text \<open>
  The retry-after value as the specification words it: the ceiling of the remaining lockout
  time in minutes.
\<close>

definition spec_retry_after :: "datetime \<Rightarrow> datetime \<Rightarrow> int" where
  "spec_retry_after until now = - ((- (until - now)) div seconds 60)"

text \<open>
  The attempts an account has left before the lockout, as the specification counts them: 4
  less the failed attempts stored.
\<close>

definition spec_remaining_attempts :: "User \<Rightarrow> int" where
  "spec_remaining_attempts account = 4 - failed_attempts account"

text \<open>The time a token is valid for, counted from the clock reading it was issued at.\<close>

definition validity_window :: "token \<Rightarrow> datetime \<Rightarrow> timedelta" where
  "validity_window tok issued = exp tok - issued"

text \<open>
  The validity windows of the access and the refresh token that a login hands out, when it
  succeeds.
\<close>

definition issued_windows ::
  "(string \<Rightarrow> string \<Rightarrow> bool) \<Rightarrow> clock \<Rightarrow> portal_db \<Rightarrow> LoginRequest
     \<Rightarrow> (timedelta \<times> timedelta) option" where
  "issued_windows verify_password clk db login_data =
     (case fst (login verify_password clk db login_data) of
        Inl _ \<Rightarrow> None
      | Inr r \<Rightarrow>
         (case cookies r of
            [a, b] \<Rightarrow> Some (validity_window (cookie_value a) (now_access clk),
                            validity_window (cookie_value b) (now_refresh clk))
          | _ \<Rightarrow> None))"

section \<open>Sample data\<close>

text \<open>A stand-in for bcrypt: the stored hash is the password behind a fixed prefix.\<close>

definition sample_verify :: "string \<Rightarrow> string \<Rightarrow> bool" where
  "sample_verify plain hashed = (hashed = ''hash:'' @ plain)"

definition clock_at :: "datetime \<Rightarrow> clock" where
  "clock_at t = \<lparr>now_test = t, now_retry = t, now_lock = t, now_access = t, now_refresh = t\<rparr>"

definition alice :: User where
  "alice = \<lparr>user_id = 1, email = ''alice@university.edu'', password_hash = ''hash:wonderland'',
            role = STUDENT, user_status = ACTIVE, failed_attempts = 0, lockout_until = None\<rparr>"

definition prof :: User where
  "prof = \<lparr>user_id = 2, email = ''prof@university.edu'', password_hash = ''hash:tenure'',
           role = FACULTY, user_status = ACTIVE, failed_attempts = 0, lockout_until = None\<rparr>"

definition root :: User where
  "root = \<lparr>user_id = 3, email = ''admin@university.edu'', password_hash = ''hash:sudo'',
           role = ADMIN, user_status = ACTIVE, failed_attempts = 0, lockout_until = None\<rparr>"

definition notes_row :: UploadedFile where
  "notes_row = \<lparr>file_id = 7, filename = ''notes.pdf'', file_path = ''uploads/6/CS101/unit_1/notes.pdf'',
                subject_code = ''CS101'', unit = ''1'', semester = ''6'', uploaded_by_id = 1,
                uploaded_by_role = STUDENT, file_status = FILE_PENDING\<rparr>"

definition sample_db :: "User list \<Rightarrow> UploadedFile list \<Rightarrow> portal_db" where
  "sample_db us fs =
     \<lparr>users = us,
      faculties = [\<lparr>faculty_id = 20, faculty_user_id = 2\<rparr>],
      students = [\<lparr>student_id = 10, student_user_id = 1, student_name = ''Alice'',
                   student_usn = ''1UN21CS001''\<rparr>],
      courses = [\<lparr>course_code = ''CS101'', course_faculty_id = Some 20\<rparr>],
      notifications = [], uploaded_files = fs, audit_log = [], disk = []\<rparr>"

definition wrong_password :: LoginRequest where
  "wrong_password = \<lparr>req_email = ''alice@university.edu'', req_password = ''looking-glass''\<rparr>"

definition right_password :: LoginRequest where
  "right_password = \<lparr>req_email = ''alice@university.edu'', req_password = ''wonderland''\<rparr>"

definition blank_page :: upload where
  "blank_page = \<lparr>upload_filename = ''blank.txt'', upload_bytes = [CHR 0xC2, CHR 0xA0, CHR 0x0A]\<rparr>"

definition lecture :: upload where
  "lecture = \<lparr>upload_filename = ''lecture.txt'', upload_bytes = ''Graphs and trees''\<rparr>"

definition binary :: upload where
  "binary = \<lparr>upload_filename = ''setup.exe'', upload_bytes = ''MZ''\<rparr>"

text \<open>
  Sample services: every file can be saved, text files are their own text, the classifier answers with a fixed
  subject, a text is embedded as its length, the distance is the absolute difference, the
  splitter cuts fixed windows and ignores the overlap.
\<close>

fun windows :: "nat \<Rightarrow> string \<Rightarrow> string list" where
  "windows 0 s = [s]"
| "windows n [] = []"
| "windows n s = take n s # windows n (drop n s)"

definition sample_services :: "(int, int) services" where
  "sample_services =
     \<lparr>save_error = (\<lambda>p bytes. None),
      extract_text_universal = (\<lambda>p bytes. Inr bytes),
      extract_text_with_structure = (\<lambda>p bytes. Inr [(''full_text'', bytes)]),
      classify_text = (\<lambda>t. Inr [(''subject_code'', ''CS101''), (''semester'', ''6''), (''unit'', ''1'')]),
      embed = (\<lambda>t. Inr (int (length t))),
      splitter = (\<lambda>c ov t. windows c t),
      distance = (\<lambda>a b. \<bar>a - b\<bar>),
      generate_answer = (\<lambda>c q. Inr c)\<rparr>"

definition classifier_down :: "(int, int) services" where
  "classifier_down = sample_services\<lparr>classify_text := (\<lambda>t. Inl (ExternalError ''JSONDecodeError''))\<rparr>"

definition extractor_down :: "(int, int) services" where
  "extractor_down = sample_services\<lparr>extract_text_universal := (\<lambda>p bytes. Inl (ExternalError ''FileDataError''))\<rparr>"

definition no_uploads_directory :: "(int, int) services" where
  "no_uploads_directory = sample_services\<lparr>save_error := (\<lambda>p bytes. Some (ExternalError ''FileNotFoundError''))\<rparr>"

definition empty_repo :: "int repo_state" where
  "empty_repo = \<lparr>local_files = [], repository_files = [], doc_chunks = []\<rparr>"

definition sample_chunk :: "int \<Rightarrow> string \<Rightarrow> string \<Rightarrow> int \<Rightarrow> int DocChunk" where
  "sample_chunk fid subject content e =
     \<lparr>dc_file_id = fid, dc_subject_code = subject, dc_content = content, dc_embedding = e,
      dc_chunk_index = 0, dc_file_type = ''txt'', dc_section_label = None\<rparr>"

definition sample_repo :: "int repo_state" where
  "sample_repo =
     \<lparr>local_files = [], repository_files = [],
      doc_chunks = [sample_chunk 1 ''CS101'' ''a'' 9, sample_chunk 2 ''CS101'' ''b'' 4,
                    sample_chunk 1 ''CS101'' ''c'' 2, sample_chunk 1 ''MA201'' ''d'' 7,
                    sample_chunk 1 ''CS101'' ''e'' 5, sample_chunk 3 ''CS101'' ''f'' 1,
                    sample_chunk 1 ''CS101'' ''g'' 3, sample_chunk 4 ''CS101'' ''h'' 8,
                    sample_chunk 5 ''CS101'' ''i'' 6]\<rparr>"

text \<open>An ingestion attempt that raises, and the rows a request added at the end of a table.\<close>

definition ingest_raises :: "UploadedFile \<Rightarrow> ingest_outcome" where
  "ingest_raises f = IngestRaised"

definition created_rows :: "'a list \<Rightarrow> 'a list \<Rightarrow> 'a list" where
  "created_rows before after = drop (length before) after"

text \<open>
  Words for the batch loop.  \<open>save_failure\<close> and \<open>extracted\<close> are what saving an uploaded
  file and extracting its text give.  The loop passes over a file (\<open>batch_skips\<close>) when the
  file type is unsupported, or when the file is saved and its text extracted and blank; the
  entry it then adds to the skipped list is \<open>skip_entry\<close>.
\<close>

definition save_failure :: "('v, 'd) services \<Rightarrow> upload \<Rightarrow> error option" where
  "save_failure svc f = save_error svc (''uploads/'' @ upload_filename f) (upload_bytes f)"

definition extracted :: "('v, 'd) services \<Rightarrow> upload \<Rightarrow> error + string" where
  "extracted svc f = extract_text_universal svc (''uploads/'' @ upload_filename f) (upload_bytes f)"

definition batch_skips :: "('v, 'd) services \<Rightarrow> upload \<Rightarrow> bool" where
  "batch_skips svc f =
     (if is_supported (upload_filename f) then
        (case save_failure svc f of
           Some e \<Rightarrow> False
         | None \<Rightarrow> (case extracted svc f of Inl e \<Rightarrow> False | Inr t \<Rightarrow> is_blank t))
      else True)"

definition skip_entry :: "upload \<Rightarrow> string \<times> string" where
  "skip_entry f =
     (upload_filename f,
      if is_supported (upload_filename f) then ''No text could be extracted''
      else ''Unsupported file type'')"

text \<open>
  The exception that ends the loop at a file it does not pass over: that of saving, else that
  of text extraction, else the \<open>NameError\<close> of the database step.
\<close>

definition batch_stop :: "('v, 'd) services \<Rightarrow> upload \<Rightarrow> error" where
  "batch_stop svc f =
     (case save_failure svc f of
        Some e \<Rightarrow> e
      | None \<Rightarrow>
         (case extracted svc f of
            Inl e \<Rightarrow> e
          | Inr t \<Rightarrow> NameError ''get_connection_repo''))"

text \<open>The batch's verdict, read off its files in order.\<close>

definition batch_verdict :: "('v, 'd) services \<Rightarrow> string \<Rightarrow> upload list \<Rightarrow> error + batch_reply" where
  "batch_verdict svc role' ups =
     (case dropWhile (batch_skips svc) ups of
        [] \<Rightarrow> Inr \<lparr>br_role = role', br_processed = [], br_skipped = map skip_entry ups\<rparr>
      | f # rest \<Rightarrow> Inl (batch_stop svc f))"

definition saved :: "'v repo_state \<Rightarrow> upload \<Rightarrow> 'v repo_state" where
  "saved st f = st\<lparr>local_files := (''uploads/'' @ upload_filename f, upload_bytes f) # local_files st\<rparr>"

text \<open>A classifier service that cannot be reached.\<close>

definition classifier_unreachable :: "upload \<Rightarrow> classify_reply" where
  "classifier_unreachable f = ClassifierRaised"

text \<open>Login requests one after another, each at its own clock reading.\<close>

fun login_sequence ::
  "(string \<Rightarrow> string \<Rightarrow> bool) \<Rightarrow> (datetime \<times> LoginRequest) list \<Rightarrow> portal_db
     \<Rightarrow> (error + login_response) list \<times> portal_db" where
  "login_sequence verify_password [] db = ([], db)"
| "login_sequence verify_password ((t, r) # rest) db =
     (case login verify_password (clock_at t) db r of
        (reply, db1) \<Rightarrow>
          (case login_sequence verify_password rest db1 of
             (replies, db2) \<Rightarrow> (reply # replies, db2)))"

section \<open>Login: failed attempts and lockout\<close>

lemmas show_defs = show_int_def show_nat.simps digit_char_def

lemma find_replace:
  assumes "find P xs = Some a" and "P a'"
  shows "find P (map (\<lambda>u. if k u = k a then a' else u) xs) = Some a'"
  using assms by (induction xs) (auto split: if_splits)

lemma users_log_action: "users (log_action x act actor em res) = users x"
  by (simp add: log_action_def Let_def)

lemma find_commit_user:
  assumes "find (\<lambda>u. email u = e) (users db) = Some account"
      and "email account' = email account" and "user_id account' = user_id account"
  shows "find (\<lambda>u. email u = e) (users (commit_user db account')) = Some account'"
proof -
  have "email account = e"
    using assms(1) by (auto simp: find_Some_iff)
  then have "email account' = e"
    using assms(2) by simp
  with assms(1) have "find (\<lambda>u. email u = e)
                        (map (\<lambda>u. if user_id u = user_id account then account' else u) (users db))
                      = Some account'"
    by (intro find_replace) simp_all
  then show ?thesis
    by (simp add: commit_user_def assms(3))
qed

text \<open>
  Claim C1, as amended.  An account is in the OK state when no lockout is active and its
  counter is below 4.  A login with a wrong password on such an account is answered with a
  401, and the account is stored changed.  When the incremented counter reaches 4, the stored
  account has \<open>lockout_until\<close> ten minutes after the clock reading and \<open>failed_attempts\<close>
  0, and the reply is the lockout message.  Otherwise the stored account has the counter
  incremented and the reply reports the number of the failed attempt out of four,
  \<open>Attempt N/4\<close> with N the stored counter.
\<close>

theorem login_wrong_password:
  assumes "find (\<lambda>u. email u = req_email d) (users db) = Some account"
      and "\<not> lockout_active account (now_test clk)"
      and "failed_attempts account < 4"
      and "\<not> verify (req_password d) (password_hash account)"
  shows "login verify clk db d =
          (if failed_attempts account + 1 = 4
           then (Inl (HTTPException 401 ''Too many failed attempts. Account locked for 10 minutes.''),
                 log_action
                   (commit_user db (account\<lparr>lockout_until := Some (now_lock clk + minutes 10),
                                            failed_attempts := 0\<rparr>))
                   ''LOGIN_FAILED''
                   (Some (account\<lparr>lockout_until := Some (now_lock clk + minutes 10),
                                  failed_attempts := 0\<rparr>)) None None)
           else (Inl (HTTPException 401
                       (''Invalid email or password. Attempt ''
                        @ show_int (failed_attempts account + 1) @ ''/4'')),
                 log_action
                   (commit_user db (account\<lparr>failed_attempts := failed_attempts account + 1\<rparr>))
                   ''LOGIN_FAILED''
                   (Some (account\<lparr>failed_attempts := failed_attempts account + 1\<rparr>)) None None))
       \<and> find (\<lambda>u. email u = req_email d) (users (snd (login verify clk db d))) =
           Some (if failed_attempts account + 1 = 4
                 then account\<lparr>lockout_until := Some (now_lock clk + minutes 10),
                               failed_attempts := 0\<rparr>
                 else account\<lparr>failed_attempts := failed_attempts account + 1\<rparr>)"
proof -
  have run: "login verify clk db d =
          (if failed_attempts account + 1 = 4
           then (Inl (HTTPException 401 ''Too many failed attempts. Account locked for 10 minutes.''),
                 log_action
                   (commit_user db (account\<lparr>lockout_until := Some (now_lock clk + minutes 10),
                                            failed_attempts := 0\<rparr>))
                   ''LOGIN_FAILED''
                   (Some (account\<lparr>lockout_until := Some (now_lock clk + minutes 10),
                                  failed_attempts := 0\<rparr>)) None None)
           else (Inl (HTTPException 401
                       (''Invalid email or password. Attempt ''
                        @ show_int (failed_attempts account + 1) @ ''/4'')),
                 log_action
                   (commit_user db (account\<lparr>failed_attempts := failed_attempts account + 1\<rparr>))
                   ''LOGIN_FAILED''
                   (Some (account\<lparr>failed_attempts := failed_attempts account + 1\<rparr>)) None None))"
    using assms by (simp add: login_def Let_def)
  have stored: "find (\<lambda>u. email u = req_email d) (users (commit_user db account')) = Some account'"
    if "email account' = email account" and "user_id account' = user_id account" for account'
    using find_commit_user [OF assms(1) that] .
  show ?thesis
    by (simp add: run users_log_action stored)
qed

theorem login_wrong_password_witness:
  "login sample_verify (clock_at 5000000) (sample_db [alice\<lparr>failed_attempts := 3\<rparr>] []) wrong_password =
     (Inl (HTTPException 401 ''Too many failed attempts. Account locked for 10 minutes.''),
      (sample_db [alice\<lparr>failed_attempts := 0, lockout_until := Some 605000000\<rparr>] [])
        \<lparr>audit_log := [\<lparr>actor_id = Some 1, actor_email = Some ''alice@university.edu'',
                        action = ''LOGIN_FAILED'', resource = None\<rparr>]\<rparr>)
   \<and> login sample_verify (clock_at 5000000) (sample_db [alice] []) wrong_password =
     (Inl (HTTPException 401 ''Invalid email or password. Attempt 1/4''),
      (sample_db [alice\<lparr>failed_attempts := 1\<rparr>] [])
        \<lparr>audit_log := [\<lparr>actor_id = Some 1, actor_email = Some ''alice@university.edu'',
                        action = ''LOGIN_FAILED'', resource = None\<rparr>]\<rparr>)
   \<and> find (\<lambda>u. email u = ''alice@university.edu'')
        (users (snd (login sample_verify (clock_at 5000000)
                       (sample_db [alice\<lparr>failed_attempts := 3\<rparr>] []) wrong_password)))
       = Some (alice\<lparr>failed_attempts := 0, lockout_until := Some 605000000\<rparr>)
   \<and> find (\<lambda>u. email u = ''alice@university.edu'')
        (users (snd (login sample_verify (clock_at 5000000) (sample_db [alice] []) wrong_password)))
       = Some (alice\<lparr>failed_attempts := 1\<rparr>)"
  using login_wrong_password [of wrong_password "sample_db [alice\<lparr>failed_attempts := 3\<rparr>] []"
          "alice\<lparr>failed_attempts := 3\<rparr>" "clock_at 5000000" sample_verify]
        login_wrong_password [of wrong_password "sample_db [alice] []" alice "clock_at 5000000" sample_verify]
  by (simp add: sample_db_def alice_def wrong_password_def clock_at_def sample_verify_def
        lockout_active_def commit_user_def log_action_def minutes_def seconds_def show_defs)

text \<open>
  Claim C1 as stated fails in what the reply reports.  After the first failure three
  attempts remain; the reply says \<open>Attempt 1/4\<close> and names no 3.
\<close>

theorem remaining_attempts_counterexample:
  "fst (login sample_verify (clock_at 5000000) (sample_db [alice] []) wrong_password)
     = Inl (HTTPException 401 ''Invalid email or password. Attempt 1/4'')
   \<and> find (\<lambda>u. email u = ''alice@university.edu'')
        (users (snd (login sample_verify (clock_at 5000000) (sample_db [alice] []) wrong_password)))
       = Some (alice\<lparr>failed_attempts := 1\<rparr>)
   \<and> spec_remaining_attempts (alice\<lparr>failed_attempts := 1\<rparr>) = 3
   \<and> \<not> contains (show_int 3) ''Invalid email or password. Attempt 1/4''"
  by (simp add: login_def lockout_active_def commit_user_def log_action_def sample_db_def
        alice_def wrong_password_def clock_at_def sample_verify_def spec_remaining_attempts_def
        show_defs Let_def)

section \<open>Login: attempts during a lockout\<close>

text \<open>The retry value while the lockout lasts: whole minutes remaining, plus one.\<close>

lemma retry_in_floor:
  assumes "now < until"
  shows "retry_in until now = (until - now) div seconds 60 + 1"
  using assms by (simp add: retry_in_def int_trunc_div_def)

lemma retry_in_positive:
  assumes "now < until"
  shows "0 < retry_in until now"
proof -
  have "0 \<le> (until - now) div seconds 60"
    using assms by (simp add: seconds_def pos_imp_zdiv_nonneg_iff)
  then show ?thesis using assms by (simp add: retry_in_floor)
qed

lemma retry_in_bound:
  assumes "now < until" and "until - now < minutes 10"
  shows "retry_in until now \<le> 10"
proof -
  have "(until - now) div 60000000 < 10"
    using assms(2) by (simp add: minutes_def seconds_def)
  then show ?thesis using assms by (simp add: retry_in_floor seconds_def)
qed

lemma retry_in_vs_ceiling:
  assumes "now < until"
  shows "retry_in until now =
           spec_retry_after until now + (if seconds 60 dvd until - now then 1 else 0)"
proof -
  have "- ((- a) div 60000000) = (if 60000000 dvd a then a div 60000000 else a div 60000000 + 1)"
    for a :: int
    by (simp add: zdiv_zminus1_eq_if dvd_eq_mod_eq_0)
  from this [of "until - now"] show ?thesis
    using assms by (simp add: retry_in_floor spec_retry_after_def seconds_def del: minus_diff_eq)
qed

text \<open>
  Claim C2, as amended.  While \<open>lockout_until\<close> lies after the handler's clock readings, a
  login is rejected with a 403 and the database is left exactly as it was, whatever the
  password.  The reply names \<open>floor((lockout_until - now) / 60 s) + 1\<close> minutes.  That is
  the ceiling of the remaining minutes except when the remaining time is a whole number of
  minutes, where it is one more.  It is always above 0, and at most 10 when less than ten
  minutes remain.
\<close>

theorem login_while_locked:
  assumes "find (\<lambda>u. email u = req_email d) (users db) = Some account"
      and "lockout_until account = Some until"
      and "now_test clk < until"
      and "now_retry clk < until"
  shows "login verify clk db d =
           (Inl (HTTPException 403
                  (''Account locked due to multiple failed attempts. Please retry in ''
                   @ show_int (retry_in until (now_retry clk)) @ '' minutes.'')), db)
         \<and> retry_in until (now_retry clk) = (until - now_retry clk) div seconds 60 + 1
         \<and> retry_in until (now_retry clk) =
             spec_retry_after until (now_retry clk)
               + (if seconds 60 dvd until - now_retry clk then 1 else 0)
         \<and> 0 < retry_in until (now_retry clk)
         \<and> (until - now_retry clk < minutes 10 \<longrightarrow> retry_in until (now_retry clk) \<le> 10)"
proof -
  have "login verify clk db d =
           (Inl (HTTPException 403
                  (''Account locked due to multiple failed attempts. Please retry in ''
                   @ show_int (retry_in until (now_retry clk)) @ '' minutes.'')), db)"
    using assms(1-3) by (simp add: login_def lockout_active_def)
  then show ?thesis
    using retry_in_floor [OF assms(4)] retry_in_vs_ceiling [OF assms(4)]
      retry_in_positive [OF assms(4)] retry_in_bound [OF assms(4)]
    by simp
qed

theorem login_while_locked_witness:
  "login sample_verify (clock_at 5000000)
      (sample_db [alice\<lparr>lockout_until := Some 130000000\<rparr>] []) right_password =
     (Inl (HTTPException 403
            ''Account locked due to multiple failed attempts. Please retry in 3 minutes.''),
      sample_db [alice\<lparr>lockout_until := Some 130000000\<rparr>] [])
   \<and> (5000000 :: int) < 130000000 \<and> (130000000 :: int) - 5000000 < minutes 10
   \<and> retry_in 130000000 5000000 = 3 \<and> spec_retry_after 130000000 5000000 = 3"
  using login_while_locked [of right_password "sample_db [alice\<lparr>lockout_until := Some 130000000\<rparr>] []"
          "alice\<lparr>lockout_until := Some 130000000\<rparr>" 130000000 "clock_at 5000000" sample_verify]
  by (simp add: sample_db_def alice_def right_password_def clock_at_def minutes_def seconds_def show_defs)

text \<open>
  Claim C2 as stated fails.  With exactly one minute left the reply says 2 minutes, the
  ceiling being 1; with exactly ten minutes left it says 11.
\<close>

theorem retry_after_ceiling_counterexample:
  "login sample_verify (clock_at 5000000)
      (sample_db [alice\<lparr>lockout_until := Some 65000000\<rparr>] []) right_password =
     (Inl (HTTPException 403
            ''Account locked due to multiple failed attempts. Please retry in 2 minutes.''),
      sample_db [alice\<lparr>lockout_until := Some 65000000\<rparr>] [])
   \<and> spec_retry_after 65000000 5000000 = 1
   \<and> login sample_verify (clock_at 5000000)
      (sample_db [alice\<lparr>lockout_until := Some 605000000\<rparr>] []) right_password =
     (Inl (HTTPException 403
            ''Account locked due to multiple failed attempts. Please retry in 11 minutes.''),
      sample_db [alice\<lparr>lockout_until := Some 605000000\<rparr>] [])"
  by (simp add: login_def lockout_active_def retry_in_def int_trunc_div_def spec_retry_after_def
        sample_db_def alice_def right_password_def clock_at_def seconds_def show_defs)

text \<open>
  The scenario of four wrong passwords and then the right one, a second apart: three
  numbered failures, the lockout, and the right password turned away while the lockout lasts.
\<close>

lemma four_failures_then_correct:
  "fst (login_sequence sample_verify
          [(1000000, wrong_password), (2000000, wrong_password), (3000000, wrong_password),
           (4000000, wrong_password), (5000000, right_password)] (sample_db [alice] []))
     = [Inl (HTTPException 401 ''Invalid email or password. Attempt 1/4''),
        Inl (HTTPException 401 ''Invalid email or password. Attempt 2/4''),
        Inl (HTTPException 401 ''Invalid email or password. Attempt 3/4''),
        Inl (HTTPException 401 ''Too many failed attempts. Account locked for 10 minutes.''),
        Inl (HTTPException 403
              ''Account locked due to multiple failed attempts. Please retry in 10 minutes.'')]
   \<and> users (snd (login_sequence sample_verify
          [(1000000, wrong_password), (2000000, wrong_password), (3000000, wrong_password),
           (4000000, wrong_password), (5000000, right_password)] (sample_db [alice] [])))
     = [alice\<lparr>failed_attempts := 0, lockout_until := Some 604000000\<rparr>]"
  by (simp add: login_def lockout_active_def retry_in_def int_trunc_div_def commit_user_def
        log_action_def sample_db_def alice_def wrong_password_def right_password_def
        clock_at_def sample_verify_def minutes_def seconds_def show_defs Let_def)

section \<open>Login: the tokens of a successful login\<close>

text \<open>
  Claim C4, as amended.  A login with the right password on an active account without an
  active lockout answers with two cookies.  The access token is valid for 30 days from its
  clock reading, the refresh token for 7 days from its own: the refresh token is the
  shorter-lived of the two.  Both cookies are HTTP-only, same-site \<open>lax\<close>, on path \<open>/\<close>,
  and both carry the same \<open>max_age\<close> and \<open>expires\<close> of 30 days (2592000 seconds).
\<close>

theorem login_success_tokens:
  assumes "find (\<lambda>u. email u = req_email d) (users db) = Some account"
      and "\<not> lockout_active account (now_test clk)"
      and "verify (req_password d) (password_hash account)"
      and "user_status account = ACTIVE"
  shows "fst (login verify clk db d) =
           Inr \<lparr>cookies =
                  [\<lparr>key = ''access_token'',
                    cookie_value =
                      \<lparr>sub = show_int (user_id account), tok_email = Some (email account),
                       tok_role = Some (role account), tok_status = Some ACTIVE,
                       exp = now_access clk + days 30\<rparr>,
                    httponly = True, max_age = 2592000, expires = 2592000,
                    samesite = ''lax'', path = ''/''\<rparr>,
                   \<lparr>key = ''refresh_token'',
                    cookie_value =
                      \<lparr>sub = show_int (user_id account), tok_email = None, tok_role = None,
                       tok_status = None, exp = now_refresh clk + days 7\<rparr>,
                    httponly = True, max_age = 2592000, expires = 2592000,
                    samesite = ''lax'', path = ''/''\<rparr>],
                 success = True, message = ''Login successful'',
                 data_user = \<lparr>lu_id = user_id account, lu_email = email account,
                              lu_role = role account, lu_status = ACTIVE\<rparr>\<rparr>
         \<and> issued_windows verify clk db d = Some (days 30, days 7)
         \<and> days 7 < days 30"
  using assms
  by (simp add: login_def Let_def create_access_token_def create_refresh_token_def
        validity_window_def set_cookie_def days_30_def issued_windows_def days_def seconds_def)

theorem login_success_tokens_witness:
  "issued_windows sample_verify (clock_at 5000000) (sample_db [alice] []) right_password
     = Some (2592000000000, 604800000000)
   \<and> map (\<lambda>c. (key c, exp (cookie_value c), max_age c))
        (case fst (login sample_verify (clock_at 5000000) (sample_db [alice] []) right_password) of
           Inl e \<Rightarrow> [] | Inr r \<Rightarrow> cookies r)
     = [(''access_token'', 2592005000000, 2592000), (''refresh_token'', 604805000000, 2592000)]"
  using login_success_tokens [of right_password "sample_db [alice] []" alice "clock_at 5000000" sample_verify]
  by (simp add: sample_db_def alice_def right_password_def clock_at_def sample_verify_def
        lockout_active_def days_def seconds_def)

text \<open>
  Claim C4 as stated fails: at a sample login the refresh token's window is 7 days and the
  access token's 30 days, so the refresh token is not the longer-lived one.
\<close>

theorem refresh_longer_lived_counterexample:
  "issued_windows sample_verify (clock_at 5000000) (sample_db [alice] []) right_password
     = Some (days 30, days 7)
   \<and> \<not> days 30 < days 7"
  by (simp add: issued_windows_def login_def lockout_active_def Let_def create_access_token_def
        create_refresh_token_def validity_window_def set_cookie_def sample_db_def alice_def
        right_password_def clock_at_def sample_verify_def days_def seconds_def)

section \<open>Admin: approving and denying files\<close>

lemma find_map_same:
  assumes "\<And>x. P (g x) = P x"
  shows "find P (map g xs) = map_option g (find P xs)"
  using assms by (induction xs) auto

lemma find_commit_file:
  assumes "find (\<lambda>g. file_id g = fid) (uploaded_files db) = Some f"
  shows "find (\<lambda>g. file_id g = fid) (uploaded_files (commit_file db (f\<lparr>file_status := s\<rparr>)))
           = Some (f\<lparr>file_status := s\<rparr>)"
proof -
  have fid: "file_id f = fid"
    using assms by (auto simp: find_Some_iff)
  let ?g = "\<lambda>g. if file_id g = file_id (f\<lparr>file_status := s\<rparr>) then f\<lparr>file_status := s\<rparr> else g"
  have "find (\<lambda>g. file_id g = fid) (map ?g (uploaded_files db))
          = map_option ?g (find (\<lambda>g. file_id g = fid) (uploaded_files db))"
    by (rule find_map_same) (simp add: fid)
  then show ?thesis
    using assms by (simp add: commit_file_def fid)
qed

text \<open>
  Claim C9.  For an admin and an existing file id, \<open>approve_file\<close> answers with success and
  leaves the file with status APPROVED, and \<open>deny_file\<close> answers with success and leaves it
  with status DENIED, whatever the status was before and whatever became of the ingestion
  attempt; the other columns keep their values.  So approving an approved file, or denying a
  denied one, leaves the row as it was.
\<close>

theorem approve_deny_file_unconditional:
  assumes "role current_user = ADMIN"
      and "find (\<lambda>g. file_id g = fid) (uploaded_files db) = Some f"
  shows "fst (approve_file ingest db current_user fid) = Inr True
       \<and> find (\<lambda>g. file_id g = fid) (uploaded_files (snd (approve_file ingest db current_user fid)))
           = Some (f\<lparr>file_status := FILE_APPROVED\<rparr>)
       \<and> (file_status f = FILE_APPROVED \<longrightarrow>
            find (\<lambda>g. file_id g = fid)
              (uploaded_files (snd (approve_file ingest db current_user fid))) = Some f)
       \<and> fst (deny_file db current_user fid) = Inr True
       \<and> find (\<lambda>g. file_id g = fid) (uploaded_files (snd (deny_file db current_user fid)))
           = Some (f\<lparr>file_status := FILE_DENIED\<rparr>)
       \<and> (file_status f = FILE_DENIED \<longrightarrow>
            find (\<lambda>g. file_id g = fid)
              (uploaded_files (snd (deny_file db current_user fid))) = Some f)"
proof -
  have a: "approve_file ingest db current_user fid =
             (Inr True, log_action (commit_file db (f\<lparr>file_status := FILE_APPROVED\<rparr>))
                ''APPROVE_FILE'' (Some current_user) None (Some (''file:'' @ show_int (file_id f))))"
    using assms by (cases "ingest f") (simp_all add: approve_file_def check_role_def)
  have d: "deny_file db current_user fid =
             (Inr True, log_action (commit_file db (f\<lparr>file_status := FILE_DENIED\<rparr>))
                ''DENY_FILE'' (Some current_user) None (Some (''file:'' @ show_int (file_id f))))"
    using assms by (simp add: deny_file_def check_role_def)
  have l: "uploaded_files (log_action x act actor em res) = uploaded_files x" for x act actor em res
    by (simp add: log_action_def Let_def)
  have same: "file_status f = s \<Longrightarrow> f\<lparr>file_status := s\<rparr> = f" for s
    by auto
  show ?thesis
    using find_commit_file [OF assms(2)] same by (simp add: a d l)
qed


theorem approve_deny_file_unconditional_witness:
  "role root = ADMIN
   \<and> find (\<lambda>g. file_id g = 7) [notes_row\<lparr>file_status := FILE_APPROVED\<rparr>]
       = Some (notes_row\<lparr>file_status := FILE_APPROVED\<rparr>)
   \<and> fst (approve_file ingest_raises (sample_db [root] [notes_row\<lparr>file_status := FILE_APPROVED\<rparr>]) root 7)
       = Inr True
   \<and> uploaded_files (snd (approve_file ingest_raises
         (sample_db [root] [notes_row\<lparr>file_status := FILE_APPROVED\<rparr>]) root 7))
       = [notes_row\<lparr>file_status := FILE_APPROVED\<rparr>]
   \<and> fst (deny_file (sample_db [root] [notes_row\<lparr>file_status := FILE_DENIED\<rparr>]) root 7) = Inr True
   \<and> uploaded_files (snd (deny_file (sample_db [root] [notes_row\<lparr>file_status := FILE_DENIED\<rparr>]) root 7))
       = [notes_row\<lparr>file_status := FILE_DENIED\<rparr>]"
  using approve_deny_file_unconditional [of root 7 "sample_db [root] [notes_row\<lparr>file_status := FILE_APPROVED\<rparr>]"
          "notes_row\<lparr>file_status := FILE_APPROVED\<rparr>" ingest_raises]
        approve_deny_file_unconditional [of root 7 "sample_db [root] [notes_row\<lparr>file_status := FILE_DENIED\<rparr>]"
          "notes_row\<lparr>file_status := FILE_DENIED\<rparr>" ingest_raises]
  by (simp add: sample_db_def root_def notes_row_def approve_file_def deny_file_def check_role_def
        ingest_raises_def commit_file_def log_action_def)

section \<open>Admin: denying an account\<close>

text \<open>
  Claim C10.  \<open>deny_account\<close> never returns a reply and never changes the database.  For an
  admin and an existing user id the exception is the \<open>AttributeError\<close> of looking up
  \<open>DENIED\<close> on \<open>Status\<close>, whose only members are PENDING, ACTIVE and SUSPENDED; these are
  also the only values an account's status can have.
\<close>

theorem deny_account_raises:
  "snd (deny_account db current_user uid) = db
   \<and> isl (fst (deny_account db current_user uid))
   \<and> (role current_user = ADMIN \<and> find (\<lambda>u. user_id u = uid) (users db) = Some user \<longrightarrow>
        fst (deny_account db current_user uid) = Inl (AttributeError ''DENIED''))
   \<and> (Status_member name = Inr st \<longrightarrow> name \<in> {''PENDING'', ''ACTIVE'', ''SUSPENDED''})
   \<and> user_status user \<in> {PENDING, ACTIVE, SUSPENDED}"
proof -
  have m: "Status_member ''DENIED'' = Inl (AttributeError ''DENIED'')"
    by (simp add: Status_member_def)
  have s: "user_status user \<in> {PENDING, ACTIVE, SUSPENDED}"
    by (cases "user_status user") simp_all
  have n: "Status_member name = Inr st \<longrightarrow> name \<in> {''PENDING'', ''ACTIVE'', ''SUSPENDED''}"
    by (simp add: Status_member_def split: if_splits)
  show ?thesis
    using s n by (simp add: deny_account_def m check_role_def split: option.splits)
qed

theorem deny_account_raises_witness:
  "role root = ADMIN
   \<and> find (\<lambda>u. user_id u = 1) (users (sample_db [alice\<lparr>user_status := PENDING\<rparr>, root] []))
       = Some (alice\<lparr>user_status := PENDING\<rparr>)
   \<and> deny_account (sample_db [alice\<lparr>user_status := PENDING\<rparr>, root] []) root 1
       = (Inl (AttributeError ''DENIED''), sample_db [alice\<lparr>user_status := PENDING\<rparr>, root] [])
   \<and> Status_member ''ACTIVE'' = Inr ACTIVE"
  using deny_account_raises [of "sample_db [alice\<lparr>user_status := PENDING\<rparr>, root] []" root 1
          "alice\<lparr>user_status := PENDING\<rparr>" "''ACTIVE''" ACTIVE]
  by (simp add: sample_db_def root_def alice_def Status_member_def prod_eq_iff)

text \<open>The sibling handler, with a member that exists, does store the new status.\<close>

lemma approve_account_sets_active:
  "approve_account (sample_db [alice\<lparr>user_status := PENDING\<rparr>, root] []) root 1
     = (Inr \<lparr>reply_success = True, reply_message = ''Account approved safely.''\<rparr>,
        (sample_db [alice\<lparr>user_status := ACTIVE\<rparr>, root] [])
          \<lparr>audit_log := [\<lparr>actor_id = Some 3, actor_email = Some ''admin@university.edu'',
                          action = ''ADMIN_APPROVE_ACCOUNT'', resource = Some ''user:1''\<rparr>]\<rparr>)"
  by (simp add: approve_account_def check_role_def Status_member_def commit_user_def log_action_def
        sample_db_def root_def alice_def show_defs)

section \<open>Retrieval scopes of the chat engine\<close>

lemma order_by_limit_set: "set (order_by_limit d n rows) \<subseteq> set rows"
  using set_take_subset [of n "sort_key d rows"] by (simp add: order_by_limit_def)

lemma order_by_limit_length: "length (order_by_limit d n rows) \<le> n"
  by (simp add: order_by_limit_def)

lemma order_by_limit_sorted: "sorted (map d (order_by_limit d n rows))"
proof -
  have "sorted (take n (map d (sort_key d rows)))"
    by (rule sorted_wrt_take) (rule sorted_sort_key)
  then show ?thesis by (simp add: order_by_limit_def take_map)
qed

text \<open>
  Claim C7.  The rows selected for a question in scope "single document" all carry the
  requested file id and are at most 3; the rows selected in scope "subject" all carry the
  requested subject code and are at most 5; in both scopes they come in order of
  non-decreasing distance between their embedding and the question's.
\<close>

theorem scoped_retrieval:
  "(\<forall>c \<in> set (select_single_document svc st fid q). dc_file_id c = fid)
   \<and> length (select_single_document svc st fid q) \<le> 3
   \<and> sorted (map (\<lambda>c. distance svc (dc_embedding c) q) (select_single_document svc st fid q))
   \<and> (\<forall>c \<in> set (select_subject svc st subject q). dc_subject_code c = subject)
   \<and> length (select_subject svc st subject q) \<le> 5
   \<and> sorted (map (\<lambda>c. distance svc (dc_embedding c) q) (select_subject svc st subject q))"
proof -
  have "set (select_single_document svc st fid q) \<subseteq> {c \<in> set (doc_chunks st). dc_file_id c = fid}"
    using order_by_limit_set [of _ 3 "filter (\<lambda>c. dc_file_id c = fid) (doc_chunks st)"]
    by (simp add: select_single_document_def)
  moreover have "set (select_subject svc st subject q)
                   \<subseteq> {c \<in> set (doc_chunks st). dc_subject_code c = subject}"
    using order_by_limit_set [of _ 5 "filter (\<lambda>c. dc_subject_code c = subject) (doc_chunks st)"]
    by (simp add: select_subject_def)
  ultimately show ?thesis
    by (auto simp: select_single_document_def select_subject_def order_by_limit_length
          order_by_limit_sorted)
qed

lemma sample_single_document:
  "select_single_document sample_services sample_repo 1 0
     = [sample_chunk 1 ''CS101'' ''c'' 2, sample_chunk 1 ''CS101'' ''g'' 3,
        sample_chunk 1 ''CS101'' ''e'' 5]"
  by (simp add: select_single_document_def order_by_limit_def sample_services_def sample_repo_def
        sample_chunk_def)

lemma sample_subject:
  "select_subject sample_services sample_repo ''CS101'' 0
     = [sample_chunk 3 ''CS101'' ''f'' 1, sample_chunk 1 ''CS101'' ''c'' 2,
        sample_chunk 1 ''CS101'' ''g'' 3, sample_chunk 2 ''CS101'' ''b'' 4,
        sample_chunk 1 ''CS101'' ''e'' 5]"
  by (simp add: select_subject_def order_by_limit_def sample_services_def sample_repo_def
        sample_chunk_def)

theorem scoped_retrieval_witness:
  "map dc_content (select_single_document sample_services sample_repo 1 0) = [''c'', ''g'', ''e'']
   \<and> map dc_file_id (select_single_document sample_services sample_repo 1 0) = [1, 1, 1]
   \<and> sorted (map (\<lambda>c. distance sample_services (dc_embedding c) 0)
               (select_single_document sample_services sample_repo 1 0))
   \<and> map dc_content (select_subject sample_services sample_repo ''CS101'' 0)
       = [''f'', ''c'', ''g'', ''b'', ''e'']
   \<and> map dc_subject_code (select_subject sample_services sample_repo ''CS101'' 0)
       = [''CS101'', ''CS101'', ''CS101'', ''CS101'', ''CS101'']
   \<and> sorted (map (\<lambda>c. distance sample_services (dc_embedding c) 0)
               (select_subject sample_services sample_repo ''CS101'' 0))"
  using scoped_retrieval [of sample_services sample_repo 1 0 "''CS101''"]
        sample_single_document sample_subject
  by (simp add: sample_chunk_def)

text \<open>The context handed to the answer generator is made of exactly these rows, in this order.\<close>

lemma chat_context:
  assumes "embed svc question = Inr q"
  shows "chat_with_single_document svc st fid question
           = generate_answer svc (join_lines (map dc_content (select_single_document svc st fid q))) question"
    and "chat_with_subject svc st subject question
           = generate_answer svc (join_lines (map dc_content (select_subject svc st subject q))) question"
  using assms by (simp_all add: chat_with_single_document_def chat_with_subject_def)

section \<open>Smart repository: what an upload or a search comes to\<close>

text \<open>
  Neither routes/upload.py nor routes/search.py binds the name \<open>get_connection_repo\<close>:
  both import \<open>get_connection\<close> only.
\<close>

lemma get_connection_repo_unbound:
  "resolve_name upload_module_names ''get_connection_repo'' = Inl (NameError ''get_connection_repo'')"
  "resolve_name search_module_names ''get_connection_repo'' = Inl (NameError ''get_connection_repo'')"
  by (simp_all add: resolve_name_def upload_module_names_def search_module_names_def)

lemma insert_repository_file_unbound:
  "insert_repository_file upload_module_names st up ft md r ow s v rv
     = (Inl (NameError ''get_connection_repo''), st)"
  by (simp add: insert_repository_file_def get_connection_repo_unbound)

lemma upload_file_outcome:
  "upload_file svc st up role' owner_id =
     (case save_failure svc up of
        Some e \<Rightarrow> (Inl e, st)
      | None \<Rightarrow>
         (case extracted svc up of
            Inl e \<Rightarrow> Inl e
          | Inr text' \<Rightarrow>
             (case classify_text svc text' of
                Inl e \<Rightarrow> Inl e
              | Inr m \<Rightarrow> Inl (NameError ''get_connection_repo'')),
          saved st up))"
  by (simp add: upload_file_def upload_file_in_def Let_def insert_repository_file_unbound
        save_failure_def extracted_def saved_def split: sum.splits option.splits)

lemma batch_file_outcome:
  "batch_file upload_module_names svc role' owner_id st f =
     (if batch_skips svc f
      then (Inr (Skipped (fst (skip_entry f)) (snd (skip_entry f))),
            if is_supported (upload_filename f) then saved st f else st)
      else (Inl (batch_stop svc f), if save_failure svc f = None then saved st f else st))"
  by (simp add: batch_file_def Let_def insert_repository_file_unbound batch_skips_def
        batch_stop_def skip_entry_def save_failure_def extracted_def saved_def
        split: sum.splits option.splits)

lemma saved_tables:
  "repository_files (saved st f) = repository_files st" "doc_chunks (saved st f) = doc_chunks st"
  by (simp_all add: saved_def)

lemma batch_loop_outcome:
  "fst (batch_loop (batch_file upload_module_names svc role' owner_id) ups rs sk st)
     = (case dropWhile (batch_skips svc) ups of
          [] \<Rightarrow> Inr (rs, sk @ map skip_entry ups)
        | f # rest \<Rightarrow> Inl (batch_stop svc f))
   \<and> repository_files (snd (batch_loop (batch_file upload_module_names svc role' owner_id) ups rs sk st))
     = repository_files st
   \<and> doc_chunks (snd (batch_loop (batch_file upload_module_names svc role' owner_id) ups rs sk st))
     = doc_chunks st"
proof (induction ups arbitrary: sk st)
  case Nil
  then show ?case by simp
next
  case (Cons f ups)
  let ?body = "batch_file upload_module_names svc role' owner_id"
  show ?case
  proof (cases "batch_skips svc f")
    case True
    let ?st = "if is_supported (upload_filename f) then saved st f else st"
    have tables: "repository_files ?st = repository_files st" "doc_chunks ?st = doc_chunks st"
      by (simp_all add: saved_tables)
    have step: "batch_loop ?body (f # ups) rs sk st = batch_loop ?body ups rs (sk @ [skip_entry f]) ?st"
      using True by (simp add: batch_file_outcome)
    have rest: "dropWhile (batch_skips svc) (f # ups) = dropWhile (batch_skips svc) ups"
      using True by simp
    show ?thesis
      unfolding step rest
      using Cons.IH [of "sk @ [skip_entry f]" ?st] tables
      by (simp cong: list.case_cong)
  next
    case False
    then show ?thesis
      by (simp add: batch_file_outcome saved_tables)
  qed
qed

lemma upload_multiple_files_outcome:
  "fst (upload_multiple_files svc st ups role' owner_id) = batch_verdict svc role' ups"
  "repository_files (snd (upload_multiple_files svc st ups role' owner_id)) = repository_files st"
  "doc_chunks (snd (upload_multiple_files svc st ups role' owner_id)) = doc_chunks st"
proof -
  let ?loop = "batch_loop (batch_file upload_module_names svc role' owner_id) ups [] [] st"
  define stop where "stop = dropWhile (batch_skips svc) ups"
  obtain res st' where loop: "?loop = (res, st')"
    by (cases ?loop)
  have res: "res = (case stop of
                      [] \<Rightarrow> Inr ([], map skip_entry ups)
                    | f # rest \<Rightarrow> Inl (batch_stop svc f))"
    and tables: "repository_files st' = repository_files st" "doc_chunks st' = doc_chunks st"
    using batch_loop_outcome [of svc role' owner_id ups "[]" "[]" st]
    by (simp_all add: loop stop_def cong: list.case_cong)
  have verdict: "batch_verdict svc role' ups =
                   (case stop of
                      [] \<Rightarrow> Inr \<lparr>br_role = role', br_processed = [], br_skipped = map skip_entry ups\<rparr>
                    | f # rest \<Rightarrow> Inl (batch_stop svc f))"
    by (simp add: batch_verdict_def stop_def)
  show "fst (upload_multiple_files svc st ups role' owner_id) = batch_verdict svc role' ups"
    unfolding verdict
    by (cases stop) (simp_all add: upload_multiple_files_def upload_multiple_files_in_def loop res)
  show "repository_files (snd (upload_multiple_files svc st ups role' owner_id)) = repository_files st"
    by (cases res) (auto simp: upload_multiple_files_def upload_multiple_files_in_def loop tables)
  show "doc_chunks (snd (upload_multiple_files svc st ups role' owner_id)) = doc_chunks st"
    by (cases res) (auto simp: upload_multiple_files_def upload_multiple_files_in_def loop tables)
qed

lemma semantic_topic_search_outcome:
  "semantic_topic_search svc st query limit =
     (case embed svc query of Inl e \<Rightarrow> Inl e | Inr v \<Rightarrow> Inl (NameError ''get_connection_repo''))"
  by (simp add: semantic_topic_search_def semantic_topic_search_in_def get_connection_repo_unbound
        split: sum.splits)

text \<open>
  Claim C3, as amended.  No call of the single-file upload returns a reply, and none adds a
  row to \<open>repository_files\<close> or to \<open>doc_chunks\<close>.  A call in which saving the file, text
  extraction and classification do not raise gets to the database step and raises the
  \<open>NameError\<close> for \<open>get_connection_repo\<close> there, the bytes being written by then.  A batch
  upload adds no row either.  It passes over unsupported files and files whose text is blank,
  and ends at the first other file: with the exception of saving or of text extraction if one
  of them raises, else with the same \<open>NameError\<close>.  A batch that passes over all its files
  returns normally with nothing processed.  The topic search never returns a result, and
  raises the same \<open>NameError\<close> whenever embedding the query does not raise.
\<close>

theorem upload_never_inserts:
  "isl (fst (upload_file svc st up role' owner_id))
   \<and> repository_files (snd (upload_file svc st up role' owner_id)) = repository_files st
   \<and> doc_chunks (snd (upload_file svc st up role' owner_id)) = doc_chunks st
   \<and> (save_failure svc up = None \<and> extracted svc up = Inr t \<and> classify_text svc t = Inr m \<longrightarrow>
        upload_file svc st up role' owner_id = (Inl (NameError ''get_connection_repo''), saved st up))
   \<and> fst (upload_multiple_files svc st ups role' owner_id) = batch_verdict svc role' ups
   \<and> repository_files (snd (upload_multiple_files svc st ups role' owner_id)) = repository_files st
   \<and> doc_chunks (snd (upload_multiple_files svc st ups role' owner_id)) = doc_chunks st
   \<and> isl (semantic_topic_search svc st query limit)
   \<and> (embed svc query = Inr v \<longrightarrow>
        semantic_topic_search svc st query limit = Inl (NameError ''get_connection_repo''))"
proof -
  have single:
    "isl (fst (upload_file svc st up role' owner_id))"
    "repository_files (snd (upload_file svc st up role' owner_id)) = repository_files st"
    "doc_chunks (snd (upload_file svc st up role' owner_id)) = doc_chunks st"
    by (simp_all add: upload_file_outcome saved_tables split: option.splits sum.splits)
  have reached:
    "save_failure svc up = None \<and> extracted svc up = Inr t \<and> classify_text svc t = Inr m \<longrightarrow>
       upload_file svc st up role' owner_id = (Inl (NameError ''get_connection_repo''), saved st up)"
    by (simp add: upload_file_outcome)
  have search:
    "isl (semantic_topic_search svc st query limit)"
    "embed svc query = Inr v \<longrightarrow>
       semantic_topic_search svc st query limit = Inl (NameError ''get_connection_repo'')"
    by (simp_all add: semantic_topic_search_outcome split: sum.splits)
  show ?thesis
    by (intro conjI single reached upload_multiple_files_outcome search)
qed

lemma sample_supported:
  "is_supported ''lecture.txt''" "is_supported ''blank.txt''" "\<not> is_supported ''setup.exe''"
  by (simp_all add: is_supported_def splitext_ext_def last_segment_def lower_def lower_char_def
        SUPPORTED_EXTENSIONS_def Let_def)

lemma sample_blank:
  "is_blank [CHR 0xC2, CHR 0xA0, CHR 0x0A]" "\<not> is_blank ''Graphs and trees''"
  by (simp_all add: is_blank.simps strip_space_def WHITESPACE_def)

lemma sample_skips:
  "batch_skips sample_services binary" "batch_skips sample_services blank_page"
  "\<not> batch_skips sample_services lecture"
  "batch_stop sample_services lecture = NameError ''get_connection_repo''"
  by (simp_all add: batch_skips_def batch_stop_def save_failure_def extracted_def
        sample_services_def binary_def blank_page_def lecture_def sample_supported sample_blank)

theorem upload_never_inserts_witness:
  "save_failure sample_services lecture = None
   \<and> extracted sample_services lecture = Inr ''Graphs and trees''
   \<and> classify_text sample_services ''Graphs and trees''
       = Inr [(''subject_code'', ''CS101''), (''semester'', ''6''), (''unit'', ''1'')]
   \<and> upload_file sample_services empty_repo lecture ''faculty'' ''2''
       = (Inl (NameError ''get_connection_repo''),
          empty_repo\<lparr>local_files := [(''uploads/lecture.txt'', ''Graphs and trees'')]\<rparr>)
   \<and> fst (upload_multiple_files sample_services empty_repo [binary, blank_page, lecture] ''faculty'' ''2'')
       = Inl (NameError ''get_connection_repo'')
   \<and> repository_files (snd (upload_multiple_files sample_services empty_repo
         [binary, blank_page, lecture] ''faculty'' ''2'')) = []
   \<and> doc_chunks (snd (upload_multiple_files sample_services empty_repo
         [binary, blank_page, lecture] ''faculty'' ''2'')) = []
   \<and> embed sample_services ''graphs'' = Inr 6
   \<and> semantic_topic_search sample_services empty_repo ''graphs'' 6
       = Inl (NameError ''get_connection_repo'')"
  using upload_never_inserts [where svc = sample_services and st = empty_repo and up = lecture
          and ups = "[binary, blank_page, lecture]" and role' = "''faculty''" and owner_id = "''2''"
          and query = "''graphs''" and limit = 6 and v = 6 and t = "''Graphs and trees''"
          and m = "[(''subject_code'', ''CS101''), (''semester'', ''6''), (''unit'', ''1'')]"]
        sample_skips
  by (simp add: batch_verdict_def save_failure_def extracted_def saved_def sample_services_def
        lecture_def empty_repo_def)

text \<open>
  Claim C3 as stated fails.  When text extraction raises, the single-file upload ends with
  that exception before the database step; when the file cannot be saved, nothing is written;
  and a batch of an unsupported file and a blank one returns normally.
\<close>

theorem every_upload_name_error_counterexample:
  "upload_file extractor_down empty_repo lecture ''faculty'' ''2''
     = (Inl (ExternalError ''FileDataError''),
        empty_repo\<lparr>local_files := [(''uploads/lecture.txt'', ''Graphs and trees'')]\<rparr>)
   \<and> upload_file no_uploads_directory empty_repo lecture ''faculty'' ''2''
     = (Inl (ExternalError ''FileNotFoundError''), empty_repo)
   \<and> upload_multiple_files sample_services empty_repo [binary, blank_page] ''faculty'' ''2''
     = (Inr \<lparr>br_role = ''faculty'', br_processed = [],
             br_skipped = [(''setup.exe'', ''Unsupported file type''),
                           (''blank.txt'', ''No text could be extracted'')]\<rparr>,
        empty_repo\<lparr>local_files := [(''uploads/blank.txt'', [CHR 0xC2, CHR 0xA0, CHR 0x0A])]\<rparr>)"
  by (simp add: upload_file_def upload_file_in_def upload_multiple_files_def
        upload_multiple_files_in_def batch_file_def sample_supported sample_blank
        extractor_down_def no_uploads_directory_def sample_services_def lecture_def binary_def
        blank_page_def empty_repo_def Let_def)

section \<open>Classification failures on upload\<close>

text \<open>
  Claim C6.  On the single-file upload the classifier's exception is not caught: at a
  student's upload of a text file with the classifier failing, the handler ends with that
  exception, after the bytes were written, and no metadata is substituted.
\<close>

theorem single_upload_classifier_exception:
  "upload_file classifier_down empty_repo lecture ''student'' ''1''
     = (Inl (ExternalError ''JSONDecodeError''),
        empty_repo\<lparr>local_files := [(''uploads/lecture.txt'', ''Graphs and trees'')]\<rparr>)"
  by (simp add: upload_file_outcome save_failure_def extracted_def saved_def classifier_down_def
        sample_services_def lecture_def empty_repo_def)

text \<open>
  The batch loop does catch it and goes on with the placeholders \<open>unknown\<close>, \<open>unknown\<close>,
  \<open>0\<close>: with the connection name bound the row would be stored with them; with the module's
  real names the next step raises the \<open>NameError\<close>.
\<close>

lemma batch_classifier_exception_caught:
  "batch_file (''get_connection_repo'' # upload_module_names) classifier_down ''student'' ''1''
       empty_repo lecture
     = (Inr (Processed \<lparr>be_filename = ''lecture.txt'', be_file_id = 1, be_file_type = ''txt'',
                        be_metadata = [(''semester'', ''unknown''), (''subject_code'', ''unknown''),
                                       (''unit'', ''0'')],
                        be_status = ''ai_reviewed'', be_visibility = ''private''\<rparr>),
        \<lparr>local_files = [(''uploads/lecture.txt'', ''Graphs and trees'')],
         repository_files =
           [\<lparr>rf_id = 1, rf_filename = ''lecture.txt'', rf_file_type = ''txt'',
             rf_semester = ''unknown'', rf_subject_code = ''unknown'', rf_unit = ''0'',
             rf_file_data = ''Graphs and trees'', rf_uploader_role = ''student'',
             rf_owner_id = ''1'', rf_status = ''ai_reviewed'', rf_visibility = ''private'',
             rf_ai_score = Some 85, rf_ai_flags = Some []\<rparr>],
         doc_chunks =
           [\<lparr>dc_file_id = 1, dc_subject_code = ''unknown'', dc_content = ''Graphs and trees'',
             dc_embedding = 16, dc_chunk_index = 0, dc_file_type = ''txt'',
             dc_section_label = Some ''full_text''\<rparr>]\<rparr>)"
  by code_simp

lemma batch_classifier_exception_then_name_error:
  "batch_file upload_module_names classifier_down ''student'' ''1'' empty_repo lecture
     = (Inl (NameError ''get_connection_repo''),
        empty_repo\<lparr>local_files := [(''uploads/lecture.txt'', ''Graphs and trees'')]\<rparr>)"
  by (simp add: batch_file_outcome batch_skips_def batch_stop_def sample_supported sample_blank
        save_failure_def extracted_def saved_def classifier_down_def sample_services_def
        lecture_def empty_repo_def)

section \<open>Chunking parameters\<close>

text \<open>
  The repository's own part of chunking is the choice of chunk size and overlap by file
  type; the split itself is the library splitter's.  The overlap is below the chunk size for
  every file type.
\<close>

lemma get_splitter_parameters:
  "get_splitter ft \<in> {(500, 100), (800, 50), (1000, 150)}"
  "snd (get_splitter ft) < fst (get_splitter ft)"
  by (auto simp: get_splitter_def SPLITTER_MAP_def)

section \<open>Status of a file row at creation\<close>

lemma uploaded_files_log_action [simp]:
  "uploaded_files (log_action x act actor em res) = uploaded_files x"
  by (simp add: log_action_def Let_def)

lemma created_rows_same [simp]: "created_rows xs xs = []"
  by (simp add: created_rows_def)

lemma created_rows_append [simp]: "created_rows xs (xs @ ys) = ys"
  by (simp add: created_rows_def)

lemma faculty_upload_rows:
  "created_rows (uploaded_files db)
       (uploaded_files (snd (faculty_upload_file db current_user file subj un sem))) =
     (if isl (fst (faculty_upload_file db current_user file subj un sem)) then []
      else [\<lparr>file_id = next_file_id (uploaded_files db), filename = upload_filename file,
             file_path = os_path_join (os_path_join ''uploads'' [sem, subj, ''unit_'' @ un])
                           [upload_filename file],
             subject_code = subj, unit = un, semester = sem,
             uploaded_by_id = user_id current_user, uploaded_by_role = FACULTY,
             file_status = FILE_APPROVED\<rparr>])"
  by (simp add: faculty_upload_file_def Let_def split: sum.splits option.splits)

lemma student_upload_rows:
  "list_all (\<lambda>row. file_status row = FILE_PENDING \<and> uploaded_by_role row = STUDENT)
     (created_rows (uploaded_files db)
        (uploaded_files (snd (student_upload_file classify_only db current_user file))))
   \<and> (\<not> isl (fst (student_upload_file classify_only db current_user file)) \<longrightarrow>
        length (created_rows (uploaded_files db)
          (uploaded_files (snd (student_upload_file classify_only db current_user file)))) = 1)"
  by (simp add: student_upload_file_def Let_def split: sum.splits option.splits)

text \<open>
  Claim C5.  The row a portal faculty upload creates has status APPROVED (and role FACULTY);
  every row a portal student upload creates has status PENDING (and role STUDENT), and a
  successful one creates exactly one.  On the smart-repository path neither the single-file
  nor the batch handler creates a \<open>repository_files\<close> row, for any role: the database step
  raises first.  So no row created there has another status.
\<close>

theorem initial_file_status:
  "created_rows (uploaded_files db)
       (uploaded_files (snd (faculty_upload_file db current_user up subj un sem))) =
     (if isl (fst (faculty_upload_file db current_user up subj un sem)) then []
      else [\<lparr>file_id = next_file_id (uploaded_files db), filename = upload_filename up,
             file_path = os_path_join (os_path_join ''uploads'' [sem, subj, ''unit_'' @ un])
                           [upload_filename up],
             subject_code = subj, unit = un, semester = sem,
             uploaded_by_id = user_id current_user, uploaded_by_role = FACULTY,
             file_status = FILE_APPROVED\<rparr>])
   \<and> list_all (\<lambda>row. file_status row = FILE_PENDING \<and> uploaded_by_role row = STUDENT)
       (created_rows (uploaded_files db)
          (uploaded_files (snd (student_upload_file classify_only db current_user up))))
   \<and> (\<not> isl (fst (student_upload_file classify_only db current_user up)) \<longrightarrow>
        length (created_rows (uploaded_files db)
          (uploaded_files (snd (student_upload_file classify_only db current_user up)))) = 1)
   \<and> created_rows (repository_files st)
        (repository_files (snd (upload_file svc st up role' owner_id))) = []
   \<and> created_rows (repository_files st)
        (repository_files (snd (upload_multiple_files svc st ups role' owner_id))) = []"
proof -
  have student:
    "list_all (\<lambda>row. file_status row = FILE_PENDING \<and> uploaded_by_role row = STUDENT)
       (created_rows (uploaded_files db)
          (uploaded_files (snd (student_upload_file classify_only db current_user up))))"
    "\<not> isl (fst (student_upload_file classify_only db current_user up)) \<longrightarrow>
        length (created_rows (uploaded_files db)
          (uploaded_files (snd (student_upload_file classify_only db current_user up)))) = 1"
    using student_upload_rows [of db classify_only current_user up] by simp_all
  have single: "repository_files (snd (upload_file svc st up role' owner_id)) = repository_files st"
    by (simp add: upload_file_outcome saved_tables split: option.splits)
  have repository:
    "created_rows (repository_files st)
       (repository_files (snd (upload_file svc st up role' owner_id))) = []"
    "created_rows (repository_files st)
       (repository_files (snd (upload_multiple_files svc st ups role' owner_id))) = []"
    by (simp_all add: single upload_multiple_files_outcome)
  show ?thesis
    by (intro conjI faculty_upload_rows student repository)
qed

lemma sample_faculty_upload:
  "uploaded_files (snd (faculty_upload_file (sample_db [prof] []) prof lecture ''CS101'' ''1'' ''6''))
     = [\<lparr>file_id = 1, filename = ''lecture.txt'', file_path = ''uploads/6/CS101/unit_1/lecture.txt'',
         subject_code = ''CS101'', unit = ''1'', semester = ''6'', uploaded_by_id = 2,
         uploaded_by_role = FACULTY, file_status = FILE_APPROVED\<rparr>]"
  by (simp add: faculty_upload_file_def check_role_def sample_db_def prof_def lecture_def
        os_path_join_def join2_def next_file_id_def log_action_def Let_def)

lemma sample_student_upload:
  "student_upload_file classifier_unreachable (sample_db [alice] []) alice lecture =
     (Inr \<lparr>reply_success = True,
           reply_message = ''File '' @ [CHR 0x27] @ ''lecture.txt'' @ [CHR 0x27]
             @ '' uploaded successfully. It is now pending HOD approval.''\<rparr>,
      (sample_db [alice] [])
        \<lparr>uploaded_files :=
           [\<lparr>file_id = 1, filename = ''lecture.txt'',
             file_path = ''uploads/6/UNKNOWN/unit_1/lecture.txt'',
             subject_code = ''UNKNOWN'', unit = ''1'', semester = ''6'', uploaded_by_id = 1,
             uploaded_by_role = STUDENT, file_status = FILE_PENDING\<rparr>],
         audit_log := [\<lparr>actor_id = Some 1, actor_email = Some ''alice@university.edu'',
                         action = ''UPLOAD_FILE_PENDING'', resource = Some ''file:lecture.txt''\<rparr>],
         disk := [(''uploads/6/UNKNOWN/unit_1/lecture.txt'', ''Graphs and trees'')]\<rparr>)"
  by (simp add: student_upload_file_def check_role_def sample_db_def alice_def lecture_def
        classifier_unreachable_def os_path_join_def join2_def next_file_id_def dict_get_def
        os_replace_def log_action_def Let_def)

theorem initial_file_status_witness:
  "uploaded_files (snd (faculty_upload_file (sample_db [prof] []) prof lecture ''CS101'' ''1'' ''6''))
     = [\<lparr>file_id = 1, filename = ''lecture.txt'', file_path = ''uploads/6/CS101/unit_1/lecture.txt'',
         subject_code = ''CS101'', unit = ''1'', semester = ''6'', uploaded_by_id = 2,
         uploaded_by_role = FACULTY, file_status = FILE_APPROVED\<rparr>]
   \<and> \<not> isl (fst (student_upload_file classifier_unreachable (sample_db [alice] []) alice lecture))
   \<and> map file_status (uploaded_files
         (snd (student_upload_file classifier_unreachable (sample_db [alice] []) alice lecture)))
     = [FILE_PENDING]
   \<and> repository_files (snd (upload_file sample_services empty_repo lecture ''student'' ''1'')) = []
   \<and> repository_files (snd (upload_multiple_files sample_services empty_repo [binary, lecture]
         ''student'' ''1'')) = []"
  using initial_file_status [where db = "sample_db [prof] []" and current_user = prof
          and up = lecture and subj = "''CS101''" and un = "''1''" and sem = "''6''"
          and classify_only = classifier_unreachable and role' = "''student''"
          and st = empty_repo and svc = sample_services
          and owner_id = "''1''" and ups = "[binary, lecture]"]
        initial_file_status [where db = "sample_db [alice] []" and current_user = alice
          and up = lecture and subj = "''CS101''" and un = "''1''" and sem = "''6''"
          and classify_only = classifier_unreachable and role' = "''student''"
          and st = empty_repo and svc = sample_services
          and owner_id = "''1''" and ups = "[binary, lecture]"]
        sample_faculty_upload sample_student_upload
  by (simp add: created_rows_def empty_repo_def)

text \<open>
  The status and visibility that the smart repository's handlers work out for a role, and
  would store with the row.
\<close>

lemma determine_initial_status_values:
  "determine_initial_status ''faculty'' = (''approved'', ''public'')"
  "determine_initial_status ''student'' = (''ai_reviewed'', ''private'')"
  "role' \<noteq> ''faculty'' \<Longrightarrow> role' \<noteq> ''student'' \<Longrightarrow>
     determine_initial_status role' = (''pending'', ''private'')"
  by (simp_all add: determine_initial_status_def)

end
